theory Spec2Isabelle
  imports Main
begin

section \<open>Kinematics service of move\_group: messages\<close>

text \<open>
  The development embeds \<^verbatim>\<open>kinematics_service_capability.cpp\<close>: the validity
  callback \<^verbatim>\<open>isIKSolutionValid\<close>, \<^verbatim>\<open>computeIK\<close>, and the two service
  handlers \<^verbatim>\<open>computeIKService\<close> and \<^verbatim>\<open>computeFKService\<close>.

  Geometry, robot states and messages whose contents the handlers never inspect are
  type parameters: \<open>'p\<close> a \<^verbatim>\<open>geometry_msgs::msg::Pose\<close>, \<open>'s\<close> a
  \<^verbatim>\<open>moveit::core::RobotState\<close>, \<open>'m\<close> a \<^verbatim>\<open>moveit_msgs::msg::RobotState\<close>,
  \<open>'c\<close> a \<^verbatim>\<open>moveit_msgs::msg::Constraints\<close> and \<open>'v\<close> the joint values
  (\<^verbatim>\<open>const double*\<close>) a solver proposes.
\<close>

text \<open>
  \<^verbatim>\<open>MoveItErrorCodes::val\<close>: the five values the handlers assign, and \<open>UNSET\<close> for
  whatever a response holds before a handler writes it.
\<close>

datatype error_code =
    UNSET
  | SUCCESS
  | INVALID_GROUP_NAME
  | INVALID_LINK_NAME
  | NO_IK_SOLUTION
  | FRAME_TRANSFORM_FAILURE

text \<open>\<^verbatim>\<open>geometry_msgs::msg::PoseStamped\<close>, with the two header fields flattened.\<close>

record 'p PoseStamped =
  frame_id :: string
  stamp :: int
  pose :: 'p

text \<open>\<^verbatim>\<open>moveit_msgs::msg::PositionIKRequest\<close>; \<open>timeout_sec\<close> is \<^verbatim>\<open>timeout.sec\<close>.\<close>

record ('p, 'm, 'c) PositionIKRequest =
  group_name :: string
  robot_state :: 'm
  constraints :: 'c
  avoid_collisions :: bool
  ik_link_name :: string
  pose_stamped :: "'p PoseStamped"
  ik_link_names :: "string list"
  pose_stamped_vector :: "'p PoseStamped list"
  timeout_sec :: int

record 'm GetPositionIK_Response =
  res_solution :: 'm
  res_error_code :: error_code

record 'm GetPositionFK_Request =
  header_frame_id :: string
  fk_link_names :: "string list"
  fk_robot_state :: 'm

record 'p GetPositionFK_Response =
  res_pose_stamped :: "'p PoseStamped list"
  res_fk_link_names :: "string list"
  fk_error_code :: error_code

section \<open>Observable actions\<close>

text \<open>
  Every call a handler makes on a collaborator that has an effect, reads the shared
  planning scene or does kinematic work is recorded, in program order. The constructor and
  the destructor of \<^verbatim>\<open>LockedPlanningSceneRO\<close> are \<open>LockAcquire\<close> and
  \<open>LockRelease\<close>; \<open>PerformTransform src tgt\<close> is a call of
  \<^verbatim>\<open>performTransform\<close> on a pose of frame \<open>src\<close> with target frame \<open>tgt\<close>;
  \<open>SetFromIK\<close> is any overload of \<^verbatim>\<open>RobotState::setFromIK\<close>, the solver.
  Lookups in the immutable robot model (\<^verbatim>\<open>getJointModelGroup\<close>,
  \<^verbatim>\<open>hasLinkModel\<close>, \<^verbatim>\<open>getModelFrame\<close>) and the message predicates
  \<^verbatim>\<open>isEmpty\<close> are not recorded.
\<close>

datatype event =
    UpdateFrameTransforms
  | LockAcquire
  | LockRelease
  | GetCurrentState
  | KsetAdd
  | RobotStateMsgToRobotState
  | PerformTransform string string
  | SetFromIK
  | RobotStateToRobotStateMsg
  | RclcppError
  | GetGlobalLinkTransform string
  | ClockNow
  | SetJointGroupPositions
  | UpdateState
  | IsStateColliding
  | Decide

section \<open>Collaborators\<close>

text \<open>\<^verbatim>\<open>moveit::core::JointModelGroup\<close>: only its name is read.\<close>

datatype JointModelGroup = JointModelGroup (getName: string)

text \<open>
  \<^verbatim>\<open>kinematic_constraints::KinematicConstraintSet\<close> after
  \<^verbatim>\<open>add\<close>: \<^verbatim>\<open>empty()\<close> and \<^verbatim>\<open>decide(state).satisfied\<close>.
\<close>

record 's KinematicConstraintSet =
  kset_empty :: bool
  decide_satisfied :: "'s \<Rightarrow> bool"

text \<open>
  The planning scene seen through \<^verbatim>\<open>LockedPlanningSceneRO\<close>: its current state
  and its collision check \<^verbatim>\<open>isStateColliding(state, group)\<close>.
\<close>

record 's PlanningScene =
  getCurrentState :: 's
  isStateColliding :: "'s \<Rightarrow> string \<Rightarrow> bool"

text \<open>
  \<^verbatim>\<open>moveit::core::GroupStateValidityCallbackFn\<close>: the callback mutates the state it
  is given, so it returns the verdict, the state and what it did.
\<close>

type_synonym ('s, 'v) GroupStateValidityCallbackFn =
  "'s \<Rightarrow> JointModelGroup \<Rightarrow> 'v \<Rightarrow> bool \<times> 's \<times> event list"

text \<open>
  The three overloads of \<^verbatim>\<open>setFromIK\<close> the handler calls: a pose for the group's
  default tip, a pose for a named link, and poses paired with link names (each pose
  already converted by \<^verbatim>\<open>tf2::fromMsg\<close>).
\<close>

datatype 'p ik_target =
    TipPose 'p
  | LinkPose 'p string
  | LinkPoses "'p list" "string list"

text \<open>
  Everything the handlers reach through \<^verbatim>\<open>context_\<close>, the robot model, the
  \<^verbatim>\<open>RobotState\<close> class and the free functions of moveit\_core. None of it is in the
  source files of the capability, so each is a parameter.

  Modelled from the spec: \<^verbatim>\<open>MoveGroupCapability::performTransform\<close> (defined in
  the capability base class, which is not among the sources) is the spec's transform
  capability \<^verbatim>\<open>transform(pose, fromFrame, toFrame) -> pose | failure\<close>:
  \<open>Some\<close> of the re-expressed pose when the C++ function returns true, \<open>None\<close>
  when it returns false and leaves its argument as it was.

  \<open>setFromIK\<close> returns the solver's verdict and the state it leaves behind;
  \<open>kset_add c\<close> is the constraint set after its construction on the robot model and
  \<^verbatim>\<open>add(c, ls->getTransforms())\<close>; \<open>isEmpty_robot_state\<close> and
  \<open>isEmpty_constraints\<close> are the two overloads of \<^verbatim>\<open>moveit::core::isEmpty\<close>;
  \<open>getTFClient\<close> tells whether the TF buffer pointer is non-null;
  \<open>getGlobalLinkTransform\<close> includes the conversion \<^verbatim>\<open>tf2::toMsg\<close>;
  \<open>now i\<close> is the reading of the node's clock in iteration \<open>i\<close> of the FK loop.
  The robot model does not change during a request, and the scene is the one seen at the
  moment the lock is taken.
\<close>

record ('p, 's, 'm, 'c, 'v) env =
  getModelFrame :: string
  getJointModelGroup :: "string \<Rightarrow> JointModelGroup option"
  hasLinkModel :: "string \<Rightarrow> bool"
  getTFClient :: bool
  sameFrame :: "string \<Rightarrow> string \<Rightarrow> bool"
  performTransform :: "'p PoseStamped \<Rightarrow> string \<Rightarrow> 'p PoseStamped option"
  planning_scene :: "'s PlanningScene"
  kset_add :: "'c \<Rightarrow> 's KinematicConstraintSet"
  isEmpty_robot_state :: "'m \<Rightarrow> bool"
  isEmpty_constraints :: "'c \<Rightarrow> bool"
  robotStateMsgToRobotState :: "'m \<Rightarrow> 's \<Rightarrow> 's"
  robotStateToRobotStateMsg :: "'s \<Rightarrow> 'm \<Rightarrow> 'm"
  setJointGroupPositions :: "'s \<Rightarrow> JointModelGroup \<Rightarrow> 'v \<Rightarrow> 's"
  update :: "'s \<Rightarrow> 's"
  setFromIK :: "'s \<Rightarrow> JointModelGroup \<Rightarrow> 'p ik_target \<Rightarrow> int \<Rightarrow>
                ('s, 'v) GroupStateValidityCallbackFn option \<Rightarrow> bool \<times> 's"
  getGlobalLinkTransform :: "'s \<Rightarrow> string \<Rightarrow> 'p"
  now :: "nat \<Rightarrow> int"

section \<open>The validity callback\<close>

text \<open>
  \<^verbatim>\<open>isIKSolutionValid\<close> (lines 71-80). The two pointers are options; \<^verbatim>\<open>&&\<close>
  does not evaluate its right operand when the left one is false.
\<close>

definition isIKSolutionValid ::
  "('p, 's, 'm, 'c, 'v) env \<Rightarrow> 's PlanningScene option \<Rightarrow> 's KinematicConstraintSet option \<Rightarrow>
   ('s, 'v) GroupStateValidityCallbackFn" where
  "isIKSolutionValid ctx planning_scene_ptr constraint_set state jmg ik_solution =
     (let state1 = setJointGroupPositions ctx state jmg ik_solution;
          state2 = update ctx state1;
          tr = [SetJointGroupPositions, UpdateState];
          (collision_free, tr) =
            (case planning_scene_ptr of
               None \<Rightarrow> (True, tr)
             | Some ps \<Rightarrow> (\<not> isStateColliding ps state2 (getName jmg), tr @ [IsStateColliding]))
      in if collision_free then
           (case constraint_set of
              None \<Rightarrow> (True, state2, tr)
            | Some ks \<Rightarrow> (decide_satisfied ks state2, state2, tr @ [Decide]))
         else (False, state2, tr))"

section \<open>computeIK\<close>

text \<open>
  The loop of lines 132-143 over the poses not yet visited: \<open>ok\<close>, the poses converted
  so far and the actions. It stops at the first pose \<^verbatim>\<open>performTransform\<close> rejects.
  The source fills a vector allocated beforehand; here the converted poses are collected
  in order, and they are read only when every pose was converted.
\<close>

fun transform_poses ::
  "('p, 's, 'm, 'c, 'v) env \<Rightarrow> string \<Rightarrow> 'p PoseStamped list \<Rightarrow> 'p list \<Rightarrow> event list \<Rightarrow>
   bool \<times> 'p list \<times> event list" where
  "transform_poses ctx default_frame [] req_poses tr = (True, req_poses, tr)"
| "transform_poses ctx default_frame (msg # rest) req_poses tr =
     (case performTransform ctx msg default_frame of
        Some msg' \<Rightarrow>
          transform_poses ctx default_frame rest (req_poses @ [pose msg'])
            (tr @ [PerformTransform (frame_id msg) default_frame])
      | None \<Rightarrow> (False, req_poses, tr @ [PerformTransform (frame_id msg) default_frame]))"

text \<open>
  \<^verbatim>\<open>computeIK\<close> (lines 83-159). \<open>solution\<close>, \<open>error_code\<close> and \<open>rs\<close> are
  the three reference parameters; the result is their final values and the actions.
  The default argument of \<open>constraint\<close>, an empty function object, is \<open>None\<close>.
\<close>

definition computeIK ::
  "('p, 's, 'm, 'c, 'v) env \<Rightarrow> ('p, 'm, 'c) PositionIKRequest \<Rightarrow> 'm \<Rightarrow> error_code \<Rightarrow> 's \<Rightarrow>
   ('s, 'v) GroupStateValidityCallbackFn option \<Rightarrow> ('m \<times> error_code \<times> 's) \<times> event list" where
  "computeIK ctx req solution error_code rs constraint =
     (case getJointModelGroup ctx (group_name req) of
        Some jmg \<Rightarrow>
          (let (rs, tr) =
                 (if \<not> isEmpty_robot_state ctx (robot_state req)
                  then (robotStateMsgToRobotState ctx (robot_state req) rs, [RobotStateMsgToRobotState])
                  else (rs, []));
               default_frame = getModelFrame ctx
           in if pose_stamped_vector req = [] \<or> length (pose_stamped_vector req) = 1 then
                (let req_pose =
                       (if pose_stamped_vector req = [] then pose_stamped req
                        else hd (pose_stamped_vector req));
                     ik_link =
                       (if pose_stamped_vector req \<noteq> []
                        then (if ik_link_names req = [] then [] else hd (ik_link_names req))
                        else ik_link_name req);
                     tr = tr @ [PerformTransform (frame_id req_pose) default_frame]
                 in case performTransform ctx req_pose default_frame of
                      Some req_pose \<Rightarrow>
                        (let (result_ik, rs) =
                               (if ik_link = []
                                then setFromIK ctx rs jmg (TipPose (pose req_pose))
                                       (timeout_sec req) constraint
                                else setFromIK ctx rs jmg (LinkPose (pose req_pose) ik_link)
                                       (timeout_sec req) constraint);
                             tr = tr @ [SetFromIK]
                         in if result_ik
                            then ((robotStateToRobotStateMsg ctx rs solution, SUCCESS, rs),
                                  tr @ [RobotStateToRobotStateMsg])
                            else ((solution, NO_IK_SOLUTION, rs), tr))
                    | None \<Rightarrow> ((solution, FRAME_TRANSFORM_FAILURE, rs), tr))
              else if length (pose_stamped_vector req) \<noteq> length (ik_link_names req) then
                ((solution, INVALID_LINK_NAME, rs), tr)
              else
                (let (ok, req_poses, tr) =
                       transform_poses ctx default_frame (pose_stamped_vector req) [] tr
                 in if ok then
                      (let (result_ik, rs) =
                             setFromIK ctx rs jmg (LinkPoses req_poses (ik_link_names req))
                               (timeout_sec req) constraint;
                           tr = tr @ [SetFromIK]
                       in if result_ik
                          then ((robotStateToRobotStateMsg ctx rs solution, SUCCESS, rs),
                                tr @ [RobotStateToRobotStateMsg])
                          else ((solution, NO_IK_SOLUTION, rs), tr))
                    else ((solution, FRAME_TRANSFORM_FAILURE, rs), tr)))
      | None \<Rightarrow> ((solution, INVALID_GROUP_NAME, rs), []))"

section \<open>The IK service handler\<close>

text \<open>
  The callback \<^verbatim>\<open>computeIKService\<close> binds (lines 175-180): the scene pointer is
  null unless collision avoidance is asked for, the constraint set pointer is null when
  the set built from the request is empty.
\<close>

definition bound_isIKSolutionValid ::
  "('p, 's, 'm, 'c, 'v) env \<Rightarrow> ('p, 'm, 'c) PositionIKRequest \<Rightarrow> 's PlanningScene \<Rightarrow>
   's KinematicConstraintSet \<Rightarrow> ('s, 'v) GroupStateValidityCallbackFn" where
  "bound_isIKSolutionValid ctx req ls kset =
     isIKSolutionValid ctx
       (if avoid_collisions req then Some ls else None)
       (if kset_empty kset then None else Some kset)"

text \<open>
  \<^verbatim>\<open>computeIKService\<close> (lines 161-191), on the \<^verbatim>\<open>ik_request\<close> of the service
  request. In the first branch \<^verbatim>\<open>ls\<close> is a local of the block and is destroyed at
  its end, after \<^verbatim>\<open>computeIK\<close> has returned; in the second the lock object is a
  temporary, destroyed at the end of the declaration of \<^verbatim>\<open>rs\<close>.
\<close>

definition computeIKService ::
  "('p, 's, 'm, 'c, 'v) env \<Rightarrow> ('p, 'm, 'c) PositionIKRequest \<Rightarrow> 'm GetPositionIK_Response \<Rightarrow>
   'm GetPositionIK_Response \<times> event list" where
  "computeIKService ctx req res =
     (if avoid_collisions req \<or> \<not> isEmpty_constraints ctx (constraints req) then
        (let ls = planning_scene ctx;
             rs = getCurrentState ls;
             kset = kset_add ctx (constraints req);
             ((sol, ec, rs), tr) =
               computeIK ctx req (res_solution res) (res_error_code res) rs
                 (Some (bound_isIKSolutionValid ctx req ls kset))
         in (res\<lparr>res_solution := sol, res_error_code := ec\<rparr>,
             [UpdateFrameTransforms, LockAcquire, GetCurrentState, KsetAdd] @ tr @ [LockRelease]))
      else
        (let rs = getCurrentState (planning_scene ctx);
             ((sol, ec, rs), tr) =
               computeIK ctx req (res_solution res) (res_error_code res) rs None
         in (res\<lparr>res_solution := sol, res_error_code := ec\<rparr>,
             [UpdateFrameTransforms, LockAcquire, GetCurrentState, LockRelease] @ tr)))"

section \<open>The FK service handler\<close>

text \<open>
  The pose the loop builds for link \<open>name\<close> in iteration \<open>i\<close> (lines 218-221),
  before any transform into the requested frame.
\<close>

definition link_pose ::
  "('p, 's, 'm, 'c, 'v) env \<Rightarrow> 's \<Rightarrow> nat \<Rightarrow> string \<Rightarrow> 'p PoseStamped" where
  "link_pose ctx rs i name =
     \<lparr>frame_id = getModelFrame ctx, stamp = now ctx i, pose = getGlobalLinkTransform ctx rs name\<rparr>"

text \<open>
  The loop of lines 215-226 from iteration \<open>i\<close> on, over the link names not yet
  visited. The state is the response's two lists, \<^verbatim>\<open>tf_problem\<close> and the actions.
\<close>

fun fk_loop ::
  "('p, 's, 'm, 'c, 'v) env \<Rightarrow> string \<Rightarrow> bool \<Rightarrow> 's \<Rightarrow> nat \<Rightarrow> string list \<Rightarrow>
   'p PoseStamped list \<times> string list \<times> bool \<times> event list \<Rightarrow>
   'p PoseStamped list \<times> string list \<times> bool \<times> event list" where
  "fk_loop ctx frame do_transform rs i [] st = st"
| "fk_loop ctx frame do_transform rs i (name # names) (poses, links, tf_problem, tr) =
     (if hasLinkModel ctx name then
        (let back = link_pose ctx rs i name;
             tr = tr @ [GetGlobalLinkTransform name, ClockNow];
             (back, tf_problem, tr) =
               (if do_transform then
                  (case performTransform ctx back frame of
                     Some back' \<Rightarrow> (back', tf_problem, tr @ [PerformTransform (frame_id back) frame])
                   | None \<Rightarrow> (back, True, tr @ [PerformTransform (frame_id back) frame]))
                else (back, tf_problem, tr))
         in fk_loop ctx frame do_transform rs (Suc i) names
              (poses @ [back], links @ [name], tf_problem, tr))
      else fk_loop ctx frame do_transform rs (Suc i) names (poses, links, tf_problem, tr))"

text \<open>\<^verbatim>\<open>computeFKService\<close> (lines 193-234).\<close>

definition computeFKService ::
  "('p, 's, 'm, 'c, 'v) env \<Rightarrow> 'm GetPositionFK_Request \<Rightarrow> 'p GetPositionFK_Response \<Rightarrow>
   'p GetPositionFK_Response \<times> event list" where
  "computeFKService ctx req res =
     (if fk_link_names req = [] then
        (res\<lparr>fk_error_code := INVALID_LINK_NAME\<rparr>, [RclcppError])
      else
        (let default_frame = getModelFrame ctx;
             do_transform =
               (header_frame_id req \<noteq> [] \<and>
                \<not> sameFrame ctx (header_frame_id req) default_frame \<and> getTFClient ctx);
             rs = getCurrentState (planning_scene ctx);
             rs = robotStateMsgToRobotState ctx (fk_robot_state req) rs;
             (poses, links, tf_problem, tr) =
               fk_loop ctx (header_frame_id req) do_transform rs 0 (fk_link_names req)
                 (res_pose_stamped res, res_fk_link_names res, False,
                  [UpdateFrameTransforms, LockAcquire, GetCurrentState, LockRelease,
                   RobotStateMsgToRobotState])
         in (\<lparr>res_pose_stamped = poses, res_fk_link_names = links,
              fk_error_code =
                (if tf_problem then FRAME_TRANSFORM_FAILURE
                 else if length links = length (fk_link_names req) then SUCCESS
                 else INVALID_LINK_NAME)\<rparr>,
             tr)))"

section \<open>Notions the properties are stated with\<close>

text \<open>
  The poses a request designates: the single pose when the vector is empty (line 100),
  else the vector.
\<close>

definition request_poses :: "('p, 'm, 'c) PositionIKRequest \<Rightarrow> 'p PoseStamped list" where
  "request_poses req =
     (if pose_stamped_vector req = [] then [pose_stamped req] else pose_stamped_vector req)"

text \<open>The action \<^verbatim>\<open>performTransform\<close> leaves for a pose and a target frame.\<close>

definition transform_of :: "string \<Rightarrow> 'p PoseStamped \<Rightarrow> event" where
  "transform_of target p = PerformTransform (frame_id p) target"

fun is_PerformTransform :: "event \<Rightarrow> bool" where
  "is_PerformTransform (PerformTransform src tgt) = True"
| "is_PerformTransform e = False"

text \<open>
  \<open>solver_locked d tr\<close>: with \<open>d\<close> lock objects alive at the start of \<open>tr\<close>,
  every solver call of \<open>tr\<close> happens while a lock object is alive.
\<close>

fun solver_locked :: "nat \<Rightarrow> event list \<Rightarrow> bool" where
  "solver_locked d [] = True"
| "solver_locked d (LockAcquire # tr) = solver_locked (Suc d) tr"
| "solver_locked d (LockRelease # tr) = solver_locked (d - 1) tr"
| "solver_locked d (SetFromIK # tr) = (0 < d \<and> solver_locked d tr)"
| "solver_locked d (e # tr) = solver_locked d tr"

text \<open>
  \<open>solver_unlocked d tr\<close>: every solver call of \<open>tr\<close> happens while no lock object
  is alive.
\<close>

fun solver_unlocked :: "nat \<Rightarrow> event list \<Rightarrow> bool" where
  "solver_unlocked d [] = True"
| "solver_unlocked d (LockAcquire # tr) = solver_unlocked (Suc d) tr"
| "solver_unlocked d (LockRelease # tr) = solver_unlocked (d - 1) tr"
| "solver_unlocked d (SetFromIK # tr) = (d = 0 \<and> solver_unlocked d tr)"
| "solver_unlocked d (e # tr) = solver_unlocked d tr"

text \<open>
  The callback \<^verbatim>\<open>computeIKService\<close> hands to \<^verbatim>\<open>computeIK\<close>: the bound
  \<^verbatim>\<open>isIKSolutionValid\<close> in the branch of line 168, none in the other.
\<close>

definition handler_callback ::
  "('p, 's, 'm, 'c, 'v) env \<Rightarrow> ('p, 'm, 'c) PositionIKRequest \<Rightarrow>
   ('s, 'v) GroupStateValidityCallbackFn option" where
  "handler_callback ctx req =
     (if avoid_collisions req \<or> \<not> isEmpty_constraints ctx (constraints req)
      then Some (bound_isIKSolutionValid ctx req (planning_scene ctx)
                   (kset_add ctx (constraints req)))
      else None)"

text \<open>The call of \<^verbatim>\<open>computeIK\<close> the handler makes (line 174 or line 187).\<close>

definition handler_computeIK ::
  "('p, 's, 'm, 'c, 'v) env \<Rightarrow> ('p, 'm, 'c) PositionIKRequest \<Rightarrow> 'm GetPositionIK_Response \<Rightarrow>
   ('m \<times> error_code \<times> 's) \<times> event list" where
  "handler_computeIK ctx req res =
     computeIK ctx req (res_solution res) (res_error_code res)
       (getCurrentState (planning_scene ctx)) (handler_callback ctx req)"

text \<open>
  The state the FK handler reads link transforms from: the scene's current state with
  the request's state merged in (lines 212-214).
\<close>

definition fk_state :: "('p, 's, 'm, 'c, 'v) env \<Rightarrow> 'm GetPositionFK_Request \<Rightarrow> 's" where
  "fk_state ctx req =
     robotStateMsgToRobotState ctx (fk_robot_state req) (getCurrentState (planning_scene ctx))"

text \<open>\<^verbatim>\<open>do_transform\<close> of lines 207-209.\<close>

definition fk_do_transform :: "('p, 's, 'm, 'c, 'v) env \<Rightarrow> 'm GetPositionFK_Request \<Rightarrow> bool" where
  "fk_do_transform ctx req =
     (header_frame_id req \<noteq> [] \<and>
      \<not> sameFrame ctx (header_frame_id req) (getModelFrame ctx) \<and> getTFClient ctx)"

text \<open>
  In iteration \<open>i\<close> the link \<open>name\<close> exists in the model, is to be transformed
  into the requested frame, and \<^verbatim>\<open>performTransform\<close> fails on its pose.
\<close>

definition fk_transform_fails ::
  "('p, 's, 'm, 'c, 'v) env \<Rightarrow> 'm GetPositionFK_Request \<Rightarrow> nat \<times> string \<Rightarrow> bool" where
  "fk_transform_fails ctx req = (\<lambda>(i, name).
     hasLinkModel ctx name \<and> fk_do_transform ctx req \<and>
     performTransform ctx (link_pose ctx (fk_state ctx req) i name) (header_frame_id req) = None)"

text \<open>
  The pose the response holds for the link \<open>name\<close> visited in iteration \<open>i\<close>:
  transformed into the requested frame when that is asked for and succeeds, else as built
  in the model frame.
\<close>

definition fk_entry ::
  "('p, 's, 'm, 'c, 'v) env \<Rightarrow> 'm GetPositionFK_Request \<Rightarrow> nat \<times> string \<Rightarrow> 'p PoseStamped" where
  "fk_entry ctx req = (\<lambda>(i, name).
     (let back = link_pose ctx (fk_state ctx req) i name
      in if fk_do_transform ctx req
         then (case performTransform ctx back (header_frame_id req) of
                 Some back' \<Rightarrow> back' | None \<Rightarrow> back)
         else back))"

text \<open>The requested links that exist in the model, each with its position in the request.\<close>

definition matched_links ::
  "('p, 's, 'm, 'c, 'v) env \<Rightarrow> 'm GetPositionFK_Request \<Rightarrow> (nat \<times> string) list" where
  "matched_links ctx req =
     filter (\<lambda>(i, name). hasLinkModel ctx name) (enumerate 0 (fk_link_names req))"

section \<open>A small robot to run the handlers on\<close>

text \<open>
  Poses, states and joint values are numbers, messages are lists of numbers. The model
  has one group \<open>arm\<close> and the links \<open>base\<close> and \<open>gripper\<close>; the frame
  \<open>mars\<close> cannot be reached from any other; state 7 collides; a constraint message
  lists the states it forbids. The solver proposes the target pose itself as joint
  value, fails beyond 100 and otherwise asks the callback.
\<close>

definition demo_scene :: "nat PlanningScene" where
  "demo_scene = \<lparr>getCurrentState = 0, isStateColliding = (\<lambda>s g. s = 7)\<rparr>"

definition demo_solver ::
  "nat \<Rightarrow> JointModelGroup \<Rightarrow> nat ik_target \<Rightarrow> int \<Rightarrow>
   (nat, nat) GroupStateValidityCallbackFn option \<Rightarrow> bool \<times> nat" where
  "demo_solver rs jmg target t constraint =
     (let candidate =
            (case target of TipPose p \<Rightarrow> p | LinkPose p l \<Rightarrow> p | LinkPoses ps ls \<Rightarrow> sum_list ps)
      in if 100 < candidate then (False, rs)
         else (case constraint of
                 None \<Rightarrow> (True, candidate)
               | Some cb \<Rightarrow> (case cb rs jmg candidate of (ok, rs', tr) \<Rightarrow> (ok, rs'))))"

definition demo_transform :: "nat PoseStamped \<Rightarrow> string \<Rightarrow> nat PoseStamped option" where
  "demo_transform p target =
     (if frame_id p = target then Some p
      else if frame_id p = [] then Some (p\<lparr>frame_id := target\<rparr>)
      else if frame_id p = ''mars'' \<or> target = ''mars'' then None
      else Some (p\<lparr>frame_id := target, pose := pose p + 1\<rparr>))"

definition demo_ctx :: "(nat, nat, nat list, nat list, nat) env" where
  "demo_ctx =
     \<lparr>getModelFrame = ''world'',
      getJointModelGroup = (\<lambda>n. if n = ''arm'' then Some (JointModelGroup ''arm'') else None),
      hasLinkModel = (\<lambda>l. l = ''base'' \<or> l = ''gripper''),
      getTFClient = True,
      sameFrame = (\<lambda>a b. a = b),
      performTransform = demo_transform,
      planning_scene = demo_scene,
      kset_add = (\<lambda>c. \<lparr>kset_empty = (c = []), decide_satisfied = (\<lambda>s. s \<notin> set c)\<rparr>),
      isEmpty_robot_state = (\<lambda>m. m = []),
      isEmpty_constraints = (\<lambda>c. c = []),
      robotStateMsgToRobotState = (\<lambda>m s. case m of [] \<Rightarrow> s | x # xs \<Rightarrow> x),
      robotStateToRobotStateMsg = (\<lambda>s m. [s]),
      setJointGroupPositions = (\<lambda>s g v. v),
      update = (\<lambda>s. s),
      setFromIK = demo_solver,
      getGlobalLinkTransform = (\<lambda>s l. s + length l),
      now = int\<rparr>"

definition demo_pose :: "string \<Rightarrow> nat \<Rightarrow> nat PoseStamped" where
  "demo_pose f p = \<lparr>frame_id = f, stamp = 0, pose = p\<rparr>"

text \<open>
  An unconstrained request for group \<open>arm\<close> with the single pose 5 in the model
  frame; the examples below change one field at a time.
\<close>

definition demo_req :: "(nat, nat list, nat list) PositionIKRequest" where
  "demo_req =
     \<lparr>group_name = ''arm'', robot_state = [], constraints = [], avoid_collisions = False,
      ik_link_name = [], pose_stamped = demo_pose ''world'' 5, ik_link_names = [],
      pose_stamped_vector = [], timeout_sec = 1\<rparr>"

definition bogus_req :: "(nat, nat list, nat list) PositionIKRequest" where
  "bogus_req = demo_req\<lparr>group_name := ''bogus''\<rparr>"

definition avoid_req :: "(nat, nat list, nat list) PositionIKRequest" where
  "avoid_req = demo_req\<lparr>avoid_collisions := True\<rparr>"

definition colliding_req :: "(nat, nat list, nat list) PositionIKRequest" where
  "colliding_req = demo_req\<lparr>avoid_collisions := True, pose_stamped := demo_pose ''world'' 7\<rparr>"

definition multi_fail_req :: "(nat, nat list, nat list) PositionIKRequest" where
  "multi_fail_req =
     demo_req\<lparr>ik_link_names := [''base'', ''gripper'', ''base''],
              pose_stamped_vector :=
                [demo_pose ''world'' 1, demo_pose ''mars'' 2, demo_pose ''world'' 3]\<rparr>"

definition mismatch_req :: "(nat, nat list, nat list) PositionIKRequest" where
  "mismatch_req =
     demo_req\<lparr>ik_link_names := [''base''],
              pose_stamped_vector := [demo_pose ''mars'' 1, demo_pose ''world'' 2]\<rparr>"

definition bogus_mismatch_req :: "(nat, nat list, nat list) PositionIKRequest" where
  "bogus_mismatch_req = mismatch_req\<lparr>group_name := ''bogus''\<rparr>"

definition bogus_mars_req :: "(nat, nat list, nat list) PositionIKRequest" where
  "bogus_mars_req = bogus_req\<lparr>pose_stamped := demo_pose ''mars'' 5\<rparr>"

definition demo_res :: "nat list GetPositionIK_Response" where
  "demo_res = \<lparr>res_solution = [], res_error_code = UNSET\<rparr>"

definition demo_fk_req :: "nat list GetPositionFK_Request" where
  "demo_fk_req = \<lparr>header_frame_id = [], fk_link_names = [''gripper'', ''bogus_link''],
                  fk_robot_state = [3]\<rparr>"

definition demo_fk_res :: "nat GetPositionFK_Response" where
  "demo_fk_res = \<lparr>res_pose_stamped = [], res_fk_link_names = [], fk_error_code = UNSET\<rparr>"

definition mars_fk_req :: "nat list GetPositionFK_Request" where
  "mars_fk_req = demo_fk_req\<lparr>header_frame_id := ''mars''\<rparr>"

definition empty_fk_req :: "nat list GetPositionFK_Request" where
  "empty_fk_req = demo_fk_req\<lparr>fk_link_names := []\<rparr>"

text \<open>
  The small robot without a TF client, and a request for the pose of \<open>gripper\<close> in
  the frame \<open>mars\<close>.
\<close>

definition no_tf_ctx :: "(nat, nat, nat list, nat list, nat) env" where
  "no_tf_ctx = demo_ctx\<lparr>getTFClient := False\<rparr>"

definition gripper_mars_fk_req :: "nat list GetPositionFK_Request" where
  "gripper_mars_fk_req =
     \<lparr>header_frame_id = ''mars'', fk_link_names = [''gripper''], fk_robot_state = [3]\<rparr>"

section \<open>Facts about \<^verbatim>\<open>computeIK\<close>\<close>

lemma transform_poses_ok:
  "fst (transform_poses ctx df ps acc tr) = (\<forall>p\<in>set ps. performTransform ctx p df \<noteq> None)"
  by (induction ps arbitrary: acc tr) (auto split: option.splits)

lemma transform_poses_trace:
  "snd (snd (transform_poses ctx df ps acc tr)) =
     tr @ map (transform_of df)
            (take (Suc (length (takeWhile (\<lambda>p. performTransform ctx p df \<noteq> None) ps))) ps)"
  by (induction ps arbitrary: acc tr) (auto simp: transform_of_def split: option.splits)

lemma takeWhile_all: "length (takeWhile P xs) = length xs \<longleftrightarrow> (\<forall>x\<in>set xs. P x)"
  by (induction xs) auto

lemma computeIK_no_group:
  "getJointModelGroup ctx (group_name req) = None \<Longrightarrow>
   computeIK ctx req solution error_code rs constraint = ((solution, INVALID_GROUP_NAME, rs), [])"
  by (simp add: computeIK_def)

lemma computeIK_outcomes:
  fixes ctx :: "('p, 's, 'm, 'c, 'v) env" and req :: "('p, 'm, 'c) PositionIKRequest"
    and solution :: 'm and error_code :: error_code and rs :: 's
    and constraint :: "('s, 'v) GroupStateValidityCallbackFn option"
  defines "df \<equiv> getModelFrame ctx"
    and "tr0 \<equiv> (if \<not> isEmpty_robot_state ctx (robot_state req)
                 then [RobotStateMsgToRobotState] else [])"
    and "poses \<equiv> request_poses req"
  defines "k \<equiv> length (takeWhile (\<lambda>p. performTransform ctx p df \<noteq> None) poses)"
  defines "R \<equiv> computeIK ctx req solution error_code rs constraint"
  shows
    "(getJointModelGroup ctx (group_name req) = None \<and> R = ((solution, INVALID_GROUP_NAME, rs), []))
   \<or> (getJointModelGroup ctx (group_name req) \<noteq> None \<and>
      1 < length (pose_stamped_vector req) \<and>
      length (pose_stamped_vector req) \<noteq> length (ik_link_names req) \<and>
      (\<exists>rs'. R = ((solution, INVALID_LINK_NAME, rs'), tr0)))
   \<or> (getJointModelGroup ctx (group_name req) \<noteq> None \<and>
      (length (pose_stamped_vector req) \<le> 1 \<or>
       length (pose_stamped_vector req) = length (ik_link_names req)) \<and>
      k < length poses \<and>
      (\<exists>rs'. R = ((solution, FRAME_TRANSFORM_FAILURE, rs'),
                   tr0 @ map (transform_of df) (take (Suc k) poses))))
   \<or> (\<exists>jmg rs0 target rs'.
        getJointModelGroup ctx (group_name req) = Some jmg \<and>
        (length (pose_stamped_vector req) \<le> 1 \<or>
         length (pose_stamped_vector req) = length (ik_link_names req)) \<and>
        k = length poses \<and>
        setFromIK ctx rs0 jmg target (timeout_sec req) constraint = (False, rs') \<and>
        R = ((solution, NO_IK_SOLUTION, rs'), tr0 @ map (transform_of df) poses @ [SetFromIK]))
   \<or> (\<exists>jmg rs0 target rs'.
        getJointModelGroup ctx (group_name req) = Some jmg \<and>
        (length (pose_stamped_vector req) \<le> 1 \<or>
         length (pose_stamped_vector req) = length (ik_link_names req)) \<and>
        k = length poses \<and>
        setFromIK ctx rs0 jmg target (timeout_sec req) constraint = (True, rs') \<and>
        R = ((robotStateToRobotStateMsg ctx rs' solution, SUCCESS, rs'),
             tr0 @ map (transform_of df) poses @ [SetFromIK, RobotStateToRobotStateMsg]))"
proof (cases "getJointModelGroup ctx (group_name req)")
  case None
  then show ?thesis by (simp add: R_def computeIK_no_group)
next
  case (Some jmg)
  define rs0 where "rs0 =
    (if \<not> isEmpty_robot_state ctx (robot_state req)
     then robotStateMsgToRobotState ctx (robot_state req) rs else rs)"
  have merged:
    "(if \<not> isEmpty_robot_state ctx (robot_state req)
      then (robotStateMsgToRobotState ctx (robot_state req) rs, [RobotStateMsgToRobotState])
      else (rs, [])) = (rs0, tr0)"
    by (simp add: rs0_def tr0_def)
  consider (single) "length (pose_stamped_vector req) \<le> 1"
    | (mismatch) "1 < length (pose_stamped_vector req)"
        "length (pose_stamped_vector req) \<noteq> length (ik_link_names req)"
    | (multi) "1 < length (pose_stamped_vector req)"
        "length (pose_stamped_vector req) = length (ik_link_names req)"
    by linarith
  then show ?thesis
  proof cases
    case mismatch
    then have "pose_stamped_vector req \<noteq> []" "length (pose_stamped_vector req) \<noteq> 1"
      by auto
    with mismatch have "R = ((solution, INVALID_LINK_NAME, rs0), tr0)"
      by (simp add: R_def computeIK_def Some merged)
    with Some mismatch show ?thesis by blast
  next
    case single
    define p where "p = hd poses"
    define ik_link where "ik_link =
      (if pose_stamped_vector req \<noteq> []
       then (if ik_link_names req = [] then [] else hd (ik_link_names req))
       else ik_link_name req)"
    have poses: "poses = [p]"
      using single by (cases "pose_stamped_vector req") (auto simp: p_def poses_def request_poses_def)
    have p: "p = (if pose_stamped_vector req = [] then pose_stamped req
                  else hd (pose_stamped_vector req))"
      by (simp add: p_def poses_def request_poses_def)
    have branch: "pose_stamped_vector req = [] \<or> length (pose_stamped_vector req) = 1"
      using single by (cases "pose_stamped_vector req") auto
    show ?thesis
    proof (cases "performTransform ctx p df")
      case None
      have "R = ((solution, FRAME_TRANSFORM_FAILURE, rs0), tr0 @ [transform_of df p])"
        using branch None unfolding p df_def
        by (simp add: R_def computeIK_def Some merged transform_of_def df_def)
      moreover have "k = 0" using None by (simp add: k_def poses)
      ultimately show ?thesis using Some single poses by simp
    next
      case (Some q)
      note q = this
      define target where "target =
        (if ik_link = [] then TipPose (pose q) else LinkPose (pose q) ik_link)"
      obtain ok rs' where solve:
        "setFromIK ctx rs0 jmg target (timeout_sec req) constraint = (ok, rs')"
        by (cases "setFromIK ctx rs0 jmg target (timeout_sec req) constraint") 
      have k: "k = length poses" using q by (simp add: k_def poses)
      have "R = (if ok then ((robotStateToRobotStateMsg ctx rs' solution, SUCCESS, rs'),
                            tr0 @ [transform_of df p, SetFromIK, RobotStateToRobotStateMsg])
                 else ((solution, NO_IK_SOLUTION, rs'), tr0 @ [transform_of df p, SetFromIK]))"
        using branch q solve unfolding p df_def target_def ik_link_def
        by (simp add: R_def computeIK_def \<open>getJointModelGroup ctx (group_name req) = Some jmg\<close>
              merged transform_of_def df_def split: if_splits)
      then show ?thesis
        using \<open>getJointModelGroup ctx (group_name req) = Some jmg\<close> single k solve poses
        by (cases ok) auto
    qed
  next
    case multi
    have poses: "poses = pose_stamped_vector req"
      using multi by (auto simp: poses_def request_poses_def)
    have branch: "pose_stamped_vector req \<noteq> []" "length (pose_stamped_vector req) \<noteq> 1"
      using multi by auto
    obtain ok req_poses tr where loop:
      "transform_poses ctx df (pose_stamped_vector req) [] tr0 = (ok, req_poses, tr)"
      by (cases "transform_poses ctx df (pose_stamped_vector req) [] tr0") 
    have ok: "ok = (\<forall>p\<in>set poses. performTransform ctx p df \<noteq> None)"
      using transform_poses_ok[of ctx df "pose_stamped_vector req" "[]" tr0] loop poses by simp
    have tr: "tr = tr0 @ map (transform_of df) (take (Suc k) poses)"
      using transform_poses_trace[of ctx df "pose_stamped_vector req" "[]" tr0] loop poses
      by (simp add: k_def)
    have kk: "k = length poses \<longleftrightarrow> ok"
      unfolding ok k_def by (rule takeWhile_all)
    have kle: "k \<le> length poses" unfolding k_def by (rule length_takeWhile_le)
    show ?thesis
    proof (cases ok)
      case False
      have "R = ((solution, FRAME_TRANSFORM_FAILURE, rs0), tr)"
        using branch multi loop False unfolding df_def
        by (simp add: R_def computeIK_def Some merged df_def)
      moreover have "k < length poses" using kk kle False by linarith
      ultimately show ?thesis using Some multi tr by simp
    next
      case True
      obtain res rs' where solve:
        "setFromIK ctx rs0 jmg (LinkPoses req_poses (ik_link_names req)) (timeout_sec req) constraint
           = (res, rs')"
        by (cases "setFromIK ctx rs0 jmg (LinkPoses req_poses (ik_link_names req))
                     (timeout_sec req) constraint")
      have k: "k = length poses" using kk True by simp
      have "R = (if res then ((robotStateToRobotStateMsg ctx rs' solution, SUCCESS, rs'),
                            tr @ [SetFromIK, RobotStateToRobotStateMsg])
                 else ((solution, NO_IK_SOLUTION, rs'), tr @ [SetFromIK]))"
        using branch multi loop True solve unfolding df_def
        by (simp add: R_def computeIK_def Some merged df_def)
      then show ?thesis
        using Some multi k solve tr by (cases res) auto
    qed
  qed
qed

lemma computeIKService_eq:
  "computeIKService ctx req res =
     (res\<lparr>res_solution := fst (fst (handler_computeIK ctx req res)),
          res_error_code := fst (snd (fst (handler_computeIK ctx req res)))\<rparr>,
      if avoid_collisions req \<or> \<not> isEmpty_constraints ctx (constraints req)
      then [UpdateFrameTransforms, LockAcquire, GetCurrentState, KsetAdd]
             @ snd (handler_computeIK ctx req res) @ [LockRelease]
      else [UpdateFrameTransforms, LockAcquire, GetCurrentState, LockRelease]
             @ snd (handler_computeIK ctx req res))"
  by (simp add: computeIKService_def handler_computeIK_def handler_callback_def Let_def
        split: prod.splits)

lemma transform_of_not_other [simp]:
  "SetFromIK \<notin> transform_of df ` A" "RobotStateToRobotStateMsg \<notin> transform_of df ` A"
  "LockAcquire \<notin> transform_of df ` A" "LockRelease \<notin> transform_of df ` A"
  by (auto simp: transform_of_def)

lemma filter_transform_of [simp]:
  "filter is_PerformTransform (map (transform_of df) ps) = map (transform_of df) ps"
  by (induction ps) (auto simp: transform_of_def)

lemma computeIK_lock_free:
  "LockAcquire \<notin> set (snd (computeIK ctx req solution error_code rs constraint))"
  "LockRelease \<notin> set (snd (computeIK ctx req solution error_code rs constraint))"
  using computeIK_outcomes[of ctx req solution error_code rs constraint]
  by (auto split: if_splits)

lemma computeIK_failure:
  assumes "fst (snd (fst (computeIK ctx req solution error_code rs constraint))) \<noteq> SUCCESS"
  shows "fst (fst (computeIK ctx req solution error_code rs constraint)) = solution"
    and "RobotStateToRobotStateMsg \<notin> set (snd (computeIK ctx req solution error_code rs constraint))"
    and "fst (snd (fst (computeIK ctx req solution error_code rs constraint))) \<in>
           {INVALID_GROUP_NAME, INVALID_LINK_NAME, FRAME_TRANSFORM_FAILURE, NO_IK_SOLUTION}"
  using computeIK_outcomes[of ctx req solution error_code rs constraint] assms
  by (auto split: if_splits)

lemma handler_no_group:
  "getJointModelGroup ctx (group_name req) = None \<Longrightarrow>
   handler_computeIK ctx req res =
     ((res_solution res, INVALID_GROUP_NAME, getCurrentState (planning_scene ctx)), [])"
  by (simp add: handler_computeIK_def computeIK_no_group)

lemma first_failure:
  assumes "\<exists>p\<in>set ps. \<not> P p"
  defines "k \<equiv> length (takeWhile P ps)"
  shows "k < length ps" and "\<not> P (ps ! k)" and "\<forall>j<k. P (ps ! j)"
proof -
  have "k \<noteq> length ps" using assms(1) unfolding k_def by (simp add: takeWhile_all)
  moreover have "k \<le> length ps" unfolding k_def by (rule length_takeWhile_le)
  ultimately show lt: "k < length ps" by linarith
  then show "\<not> P (ps ! k)" unfolding k_def by (rule nth_length_takeWhile)
  show "\<forall>j<k. P (ps ! j)"
  proof (intro allI impI)
    fix j assume j: "j < k"
    then have "takeWhile P ps ! j \<in> set (takeWhile P ps)"
      unfolding k_def by (rule nth_mem)
    moreover have "takeWhile P ps ! j = ps ! j"
      using j unfolding k_def by (rule takeWhile_nth)
    ultimately show "P (ps ! j)" by (auto dest: set_takeWhileD)
  qed
qed

lemma solver_locked_append:
  "LockAcquire \<notin> set tr \<Longrightarrow> LockRelease \<notin> set tr \<Longrightarrow>
   solver_locked d (tr @ tr') = ((0 < d \<or> SetFromIK \<notin> set tr) \<and> solver_locked d tr')"
  by (induction d tr rule: solver_locked.induct) auto

lemma solver_unlocked_append:
  "LockAcquire \<notin> set tr \<Longrightarrow> LockRelease \<notin> set tr \<Longrightarrow>
   solver_unlocked d (tr @ tr') = ((d = 0 \<or> SetFromIK \<notin> set tr) \<and> solver_unlocked d tr')"
  by (induction d tr rule: solver_unlocked.induct) auto

lemma handler_lock_free:
  "LockAcquire \<notin> set (snd (handler_computeIK ctx req res))"
  "LockRelease \<notin> set (snd (handler_computeIK ctx req res))"
  by (simp_all add: handler_computeIK_def computeIK_lock_free)

lemma bound_valid:
  "fst (bound_isIKSolutionValid ctx req ls kset state jmg v) =
     ((avoid_collisions req \<longrightarrow>
         \<not> isStateColliding ls (update ctx (setJointGroupPositions ctx state jmg v)) (getName jmg)) \<and>
      (\<not> kset_empty kset \<longrightarrow>
         decide_satisfied kset (update ctx (setJointGroupPositions ctx state jmg v))))"
  "fst (snd (bound_isIKSolutionValid ctx req ls kset state jmg v)) =
     update ctx (setJointGroupPositions ctx state jmg v)"
  by (auto simp: bound_isIKSolutionValid_def isIKSolutionValid_def Let_def)

section \<open>Facts about the FK loop\<close>

lemma fk_loop_eq:
  "\<exists>tr'. fk_loop ctx frame dt rs i names (poses, links, tfp, tr) =
     (poses @ map (\<lambda>(j, name).
                 let back = link_pose ctx rs j name
                 in if dt then (case performTransform ctx back frame of
                                  Some back' \<Rightarrow> back' | None \<Rightarrow> back)
                    else back)
               (filter (\<lambda>(j, name). hasLinkModel ctx name) (enumerate i names)),
      links @ map snd (filter (\<lambda>(j, name). hasLinkModel ctx name) (enumerate i names)),
      (tfp \<or> (\<exists>e\<in>set (enumerate i names).
                 case e of (j, name) \<Rightarrow>
                   hasLinkModel ctx name \<and> dt \<and>
                   performTransform ctx (link_pose ctx rs j name) frame = None)),
      tr')"
proof (induction names arbitrary: i poses links tfp tr)
  case Nil
  then show ?case by simp
next
  case (Cons name names)
  show ?case
  proof (cases "hasLinkModel ctx name")
    case False
    then show ?thesis using Cons[of "Suc i" poses links tfp tr] by auto
  next
    case True
    show ?thesis
    proof (cases dt)
      case False
      then show ?thesis
        using True Cons[of "Suc i" "poses @ [link_pose ctx rs i name]" "links @ [name]" tfp
                "tr @ [GetGlobalLinkTransform name, ClockNow]"]
        by (auto simp: Let_def)
    next
      case dt: True
      show ?thesis
      proof (cases "performTransform ctx (link_pose ctx rs i name) frame")
        case None
        then show ?thesis
          using True dt Cons[of "Suc i" "poses @ [link_pose ctx rs i name]" "links @ [name]" True
                "tr @ [GetGlobalLinkTransform name, ClockNow,
                       PerformTransform (frame_id (link_pose ctx rs i name)) frame]"]
          by (auto simp: Let_def)
      next
        case (Some back')
        then show ?thesis
          using True dt Cons[of "Suc i" "poses @ [back']" "links @ [name]" tfp
                "tr @ [GetGlobalLinkTransform name, ClockNow,
                       PerformTransform (frame_id (link_pose ctx rs i name)) frame]"]
          by (auto simp: Let_def)
      qed
    qed
  qed
qed

lemma matched_names:
  "map snd (filter (\<lambda>(j, name). P name) (enumerate i names)) = filter P names"
  by (induction names arbitrary: i) auto

lemma length_filter_all: "length (filter P xs) = length xs \<longleftrightarrow> (\<forall>x\<in>set xs. P x)"
proof -
  have "length (filter P xs) = length xs \<longleftrightarrow> length (filter (\<lambda>x. \<not> P x) xs) = 0"
    using sum_length_filter_compl[of P xs] by linarith
  also have "\<dots> \<longleftrightarrow> (\<forall>x\<in>set xs. P x)"
    by (simp add: filter_empty_conv)
  finally show ?thesis .
qed

lemma computeFKService_eq:
  assumes "fk_link_names req \<noteq> []"
  shows "\<exists>tr. computeFKService ctx req res =
    (\<lparr>res_pose_stamped = res_pose_stamped res @ map (fk_entry ctx req) (matched_links ctx req),
      res_fk_link_names = res_fk_link_names res @ map snd (matched_links ctx req),
      fk_error_code =
        (if \<exists>e\<in>set (enumerate 0 (fk_link_names req)). fk_transform_fails ctx req e
         then FRAME_TRANSFORM_FAILURE
         else if length (res_fk_link_names res @ map snd (matched_links ctx req))
                 = length (fk_link_names req)
         then SUCCESS else INVALID_LINK_NAME)\<rparr>, tr)"
proof -
  obtain tr' where loop:
    "fk_loop ctx (header_frame_id req) (fk_do_transform ctx req) (fk_state ctx req) 0
       (fk_link_names req)
       (res_pose_stamped res, res_fk_link_names res, False,
        [UpdateFrameTransforms, LockAcquire, GetCurrentState, LockRelease,
         RobotStateMsgToRobotState]) =
     (res_pose_stamped res @ map (fk_entry ctx req) (matched_links ctx req),
      res_fk_link_names res @ map snd (matched_links ctx req),
      (\<exists>e\<in>set (enumerate 0 (fk_link_names req)). fk_transform_fails ctx req e),
      tr')"
    using fk_loop_eq[of ctx "header_frame_id req" "fk_do_transform ctx req" "fk_state ctx req" 0
            "fk_link_names req" "res_pose_stamped res" "res_fk_link_names res" False]
    unfolding fk_entry_def fk_transform_fails_def matched_links_def by auto
  show ?thesis
    using assms loop[unfolded fk_do_transform_def fk_state_def]
    unfolding computeFKService_def Let_def
    by (simp add: fk_do_transform_def fk_state_def)
qed

lemma fk_loop_transforms:
  "filter is_PerformTransform
     (snd (snd (snd (fk_loop ctx frame dt rs i names (poses, links, tfp, tr))))) =
   filter is_PerformTransform tr @
   (if dt
    then map (\<lambda>e. PerformTransform (getModelFrame ctx) frame)
           (filter (\<lambda>(j, name). hasLinkModel ctx name) (enumerate i names))
    else [])"
proof (induction names arbitrary: i poses links tfp tr)
  case Nil
  then show ?case by simp
next
  case (Cons name names)
  show ?case
  proof (cases "hasLinkModel ctx name")
    case False
    then show ?thesis using Cons[of "Suc i" poses links tfp tr] by simp
  next
    case True
    show ?thesis
    proof (cases dt)
      case False
      then show ?thesis
        using True Cons[of "Suc i" "poses @ [link_pose ctx rs i name]" "links @ [name]" tfp
                "tr @ [GetGlobalLinkTransform name, ClockNow]"]
        by (simp add: Let_def)
    next
      case dt: True
      show ?thesis
      proof (cases "performTransform ctx (link_pose ctx rs i name) frame")
        case None
        then show ?thesis
          using True dt Cons[of "Suc i" "poses @ [link_pose ctx rs i name]" "links @ [name]" True
                "tr @ [GetGlobalLinkTransform name, ClockNow,
                       PerformTransform (frame_id (link_pose ctx rs i name)) frame]"]
          by (simp add: Let_def link_pose_def)
      next
        case (Some back')
        then show ?thesis
          using True dt Cons[of "Suc i" "poses @ [back']" "links @ [name]" tfp
                "tr @ [GetGlobalLinkTransform name, ClockNow,
                       PerformTransform (frame_id (link_pose ctx rs i name)) frame]"]
          by (simp add: Let_def link_pose_def)
      qed
    qed
  qed
qed

lemma computeFKService_transforms:
  assumes "fk_link_names req \<noteq> []"
  shows "filter is_PerformTransform (snd (computeFKService ctx req res)) =
     (if fk_do_transform ctx req
      then map (\<lambda>e. PerformTransform (getModelFrame ctx) (header_frame_id req))
             (matched_links ctx req)
      else [])"
proof -
  obtain poses links tfp tr where loop:
    "fk_loop ctx (header_frame_id req) (fk_do_transform ctx req) (fk_state ctx req) 0
       (fk_link_names req)
       (res_pose_stamped res, res_fk_link_names res, False,
        [UpdateFrameTransforms, LockAcquire, GetCurrentState, LockRelease,
         RobotStateMsgToRobotState]) = (poses, links, tfp, tr)"
    using prod_cases4 by blast
  have tr: "filter is_PerformTransform tr =
     (if fk_do_transform ctx req
      then map (\<lambda>e. PerformTransform (getModelFrame ctx) (header_frame_id req))
             (matched_links ctx req)
      else [])"
    using fk_loop_transforms[of ctx "header_frame_id req" "fk_do_transform ctx req"
      "fk_state ctx req" 0 "fk_link_names req" "res_pose_stamped res" "res_fk_link_names res"
      False "[UpdateFrameTransforms, LockAcquire, GetCurrentState, LockRelease,
        RobotStateMsgToRobotState]"]
    unfolding loop matched_links_def by simp
  have "snd (computeFKService ctx req res) = tr"
    using assms loop[unfolded fk_do_transform_def fk_state_def]
    unfolding computeFKService_def Let_def by simp
  with tr show ?thesis by simp
qed

section \<open>The handlers on the small robot\<close>

lemmas demo_defs =
  demo_ctx_def demo_scene_def demo_solver_def demo_transform_def demo_pose_def demo_req_def
  demo_res_def

lemmas ik_defs =
  computeIKService_def computeIK_def bound_isIKSolutionValid_def isIKSolutionValid_def Let_def

lemma demo_plain:
  "computeIKService demo_ctx demo_req demo_res =
     (\<lparr>res_solution = [5], res_error_code = SUCCESS\<rparr>,
      [UpdateFrameTransforms, LockAcquire, GetCurrentState, LockRelease,
       PerformTransform ''world'' ''world'', SetFromIK, RobotStateToRobotStateMsg])"
  by (simp add: ik_defs demo_defs)

lemma demo_bogus_group:
  "computeIKService demo_ctx bogus_req demo_res =
     (\<lparr>res_solution = [], res_error_code = INVALID_GROUP_NAME\<rparr>,
      [UpdateFrameTransforms, LockAcquire, GetCurrentState, LockRelease])"
  by (simp add: ik_defs demo_defs bogus_req_def)

lemma demo_avoid:
  "computeIKService demo_ctx avoid_req demo_res =
     (\<lparr>res_solution = [5], res_error_code = SUCCESS\<rparr>,
      [UpdateFrameTransforms, LockAcquire, GetCurrentState, KsetAdd,
       PerformTransform ''world'' ''world'', SetFromIK, RobotStateToRobotStateMsg, LockRelease])"
  by (simp add: ik_defs demo_defs avoid_req_def)

lemma demo_colliding:
  "computeIKService demo_ctx colliding_req demo_res =
     (\<lparr>res_solution = [], res_error_code = NO_IK_SOLUTION\<rparr>,
      [UpdateFrameTransforms, LockAcquire, GetCurrentState, KsetAdd,
       PerformTransform ''world'' ''world'', SetFromIK, LockRelease])"
  by (simp add: ik_defs demo_defs colliding_req_def)

lemma demo_multi_fail:
  "computeIKService demo_ctx multi_fail_req demo_res =
     (\<lparr>res_solution = [], res_error_code = FRAME_TRANSFORM_FAILURE\<rparr>,
      [UpdateFrameTransforms, LockAcquire, GetCurrentState, LockRelease,
       PerformTransform ''world'' ''world'', PerformTransform ''mars'' ''world''])"
  by (simp add: ik_defs demo_defs multi_fail_req_def)

lemma demo_mismatch:
  "computeIKService demo_ctx mismatch_req demo_res =
     (\<lparr>res_solution = [], res_error_code = INVALID_LINK_NAME\<rparr>,
      [UpdateFrameTransforms, LockAcquire, GetCurrentState, LockRelease])"
  by (simp add: ik_defs demo_defs mismatch_req_def)

lemma demo_bogus_mismatch:
  "computeIKService demo_ctx bogus_mismatch_req demo_res =
     (\<lparr>res_solution = [], res_error_code = INVALID_GROUP_NAME\<rparr>,
      [UpdateFrameTransforms, LockAcquire, GetCurrentState, LockRelease])"
  by (simp add: ik_defs demo_defs bogus_mismatch_req_def mismatch_req_def)

lemma demo_bogus_mars:
  "computeIKService demo_ctx bogus_mars_req demo_res =
     (\<lparr>res_solution = [], res_error_code = INVALID_GROUP_NAME\<rparr>,
      [UpdateFrameTransforms, LockAcquire, GetCurrentState, LockRelease])"
  by (simp add: ik_defs demo_defs bogus_mars_req_def bogus_req_def)

lemmas fk_defs =
  computeFKService_def link_pose_def Let_def demo_ctx_def demo_scene_def demo_transform_def
  demo_fk_req_def demo_fk_res_def

lemma demo_fk_plain:
  "computeFKService demo_ctx demo_fk_req demo_fk_res =
     (\<lparr>res_pose_stamped = [\<lparr>frame_id = ''world'', stamp = 0, pose = 10\<rparr>],
       res_fk_link_names = [''gripper''], fk_error_code = INVALID_LINK_NAME\<rparr>,
      [UpdateFrameTransforms, LockAcquire, GetCurrentState, LockRelease,
       RobotStateMsgToRobotState, GetGlobalLinkTransform ''gripper'', ClockNow])"
  by (simp add: fk_defs)

lemma demo_fk_mars:
  "computeFKService demo_ctx mars_fk_req demo_fk_res =
     (\<lparr>res_pose_stamped = [\<lparr>frame_id = ''world'', stamp = 0, pose = 10\<rparr>],
       res_fk_link_names = [''gripper''], fk_error_code = FRAME_TRANSFORM_FAILURE\<rparr>,
      [UpdateFrameTransforms, LockAcquire, GetCurrentState, LockRelease,
       RobotStateMsgToRobotState, GetGlobalLinkTransform ''gripper'', ClockNow,
       PerformTransform ''world'' ''mars''])"
  by (simp add: fk_defs mars_fk_req_def)

lemma demo_fk_no_tf:
  "computeFKService no_tf_ctx gripper_mars_fk_req demo_fk_res =
     (\<lparr>res_pose_stamped = [\<lparr>frame_id = ''world'', stamp = 0, pose = 10\<rparr>],
       res_fk_link_names = [''gripper''], fk_error_code = SUCCESS\<rparr>,
      [UpdateFrameTransforms, LockAcquire, GetCurrentState, LockRelease,
       RobotStateMsgToRobotState, GetGlobalLinkTransform ''gripper'', ClockNow])"
  by (simp add: fk_defs no_tf_ctx_def gripper_mars_fk_req_def)

section \<open>Properties of the handlers\<close>

text \<open>
  C1, as the code has it. When the group name of an IK request does not resolve, the
  handler answers \<open>INVALID_GROUP_NAME\<close>, leaves the rest of the response alone, and
  neither calls the solver nor \<^verbatim>\<open>performTransform\<close>. It does refresh the frame
  transforms and take the lock first: the state on which the group is looked up is copied
  from the locked scene, so the lock is acquired (and released again) on this path too.
\<close>

theorem C1_unknown_group:
  assumes "getJointModelGroup ctx (group_name req) = None"
  shows "computeIKService ctx req res =
           (res\<lparr>res_error_code := INVALID_GROUP_NAME\<rparr>,
            if avoid_collisions req \<or> \<not> isEmpty_constraints ctx (constraints req)
            then [UpdateFrameTransforms, LockAcquire, GetCurrentState, KsetAdd, LockRelease]
            else [UpdateFrameTransforms, LockAcquire, GetCurrentState, LockRelease]) \<and>
         SetFromIK \<notin> set (snd (computeIKService ctx req res)) \<and>
         filter is_PerformTransform (snd (computeIKService ctx req res)) = []"
  using assms by (simp add: computeIKService_eq handler_no_group)

text \<open>The group \<open>bogus\<close> is not in the small robot's model.\<close>

theorem C1_witness:
  "getJointModelGroup demo_ctx (group_name bogus_req) = None \<and>
   computeIKService demo_ctx bogus_req demo_res =
     (demo_res\<lparr>res_error_code := INVALID_GROUP_NAME\<rparr>,
      [UpdateFrameTransforms, LockAcquire, GetCurrentState, LockRelease]) \<and>
   SetFromIK \<notin> set (snd (computeIKService demo_ctx bogus_req demo_res))"
proof -
  have h: "getJointModelGroup demo_ctx (group_name bogus_req) = None"
    by (simp add: demo_defs bogus_req_def)
  from C1_unknown_group[OF h, of demo_res] h show ?thesis
    by (simp add: demo_defs bogus_req_def)
qed

text \<open>
  C1 as stated fails: for the unknown group \<open>bogus\<close> the lock is acquired before the
  handler finds out.
\<close>

theorem C1_counterexample:
  "getJointModelGroup demo_ctx (group_name bogus_req) = None \<and>
   LockAcquire \<in> set (snd (computeIKService demo_ctx bogus_req demo_res))"
  by (simp add: demo_bogus_group) (simp add: demo_defs bogus_req_def)

text \<open>
  C2. The actions of \<^verbatim>\<open>computeIK\<close> contain no lock action of their own. When the
  request asks for collision avoidance or its constraints message is not empty, the
  handler's actions are: take the lock, copy the state, build the constraint set, all of
  \<^verbatim>\<open>computeIK\<close>, release the lock; so every solver call happens under the lock. In
  the other case they are: take the lock, copy the state, release the lock, then all of
  \<^verbatim>\<open>computeIK\<close>; so every solver call happens with the lock released. Hence,
  whenever the solver is called at all, it runs under the lock if and only if the request
  asks for collision avoidance or carries constraints.
\<close>

theorem C2_lock_scope:
  "LockAcquire \<notin> set (snd (handler_computeIK ctx req res)) \<and>
   LockRelease \<notin> set (snd (handler_computeIK ctx req res)) \<and>
   (avoid_collisions req \<or> \<not> isEmpty_constraints ctx (constraints req) \<longrightarrow>
      snd (computeIKService ctx req res) =
        [UpdateFrameTransforms, LockAcquire, GetCurrentState, KsetAdd]
          @ snd (handler_computeIK ctx req res) @ [LockRelease] \<and>
      solver_locked 0 (snd (computeIKService ctx req res))) \<and>
   (\<not> (avoid_collisions req \<or> \<not> isEmpty_constraints ctx (constraints req)) \<longrightarrow>
      snd (computeIKService ctx req res) =
        [UpdateFrameTransforms, LockAcquire, GetCurrentState, LockRelease]
          @ snd (handler_computeIK ctx req res) \<and>
      solver_unlocked 0 (snd (computeIKService ctx req res))) \<and>
   (SetFromIK \<in> set (snd (computeIKService ctx req res)) \<longrightarrow>
      (solver_locked 0 (snd (computeIKService ctx req res)) \<longleftrightarrow>
       avoid_collisions req \<or> \<not> isEmpty_constraints ctx (constraints req)))"
proof -
  let ?inner = "snd (handler_computeIK ctx req res)"
  note lf = handler_lock_free[of ctx req res]
  have held: "solver_locked 0 ([UpdateFrameTransforms, LockAcquire, GetCurrentState, KsetAdd]
                 @ ?inner @ [LockRelease])"
    using solver_locked_append[OF lf, of "Suc 0" "[LockRelease]"] by simp
  have free: "solver_unlocked 0 ([UpdateFrameTransforms, LockAcquire, GetCurrentState, LockRelease]
                 @ ?inner)"
    using solver_unlocked_append[OF lf, of 0 "[]"] by simp
  have not_held: "SetFromIK \<in> set ?inner \<Longrightarrow>
      \<not> solver_locked 0 ([UpdateFrameTransforms, LockAcquire, GetCurrentState, LockRelease]
                 @ ?inner)"
    using solver_locked_append[OF lf, of 0 "[]"] by simp
  show ?thesis
    using lf held free not_held
    by (cases "avoid_collisions req \<or> \<not> isEmpty_constraints ctx (constraints req)")
       (simp_all add: computeIKService_eq)
qed

text \<open>
  The plain request is solved with the lock released, the same request with collision
  avoidance under the lock.
\<close>

theorem C2_witness:
  "avoid_collisions avoid_req \<and>
   SetFromIK \<in> set (snd (computeIKService demo_ctx avoid_req demo_res)) \<and>
   solver_locked 0 (snd (computeIKService demo_ctx avoid_req demo_res)) \<and>
   \<not> avoid_collisions demo_req \<and> isEmpty_constraints demo_ctx (constraints demo_req) \<and>
   SetFromIK \<in> set (snd (computeIKService demo_ctx demo_req demo_res)) \<and>
   solver_unlocked 0 (snd (computeIKService demo_ctx demo_req demo_res)) \<and>
   \<not> solver_locked 0 (snd (computeIKService demo_ctx demo_req demo_res))"
proof -
  have ha: "avoid_collisions avoid_req"
    by (simp add: demo_defs avoid_req_def)
  have hb: "\<not> avoid_collisions demo_req" "isEmpty_constraints demo_ctx (constraints demo_req)"
    by (simp_all add: demo_defs)
  have sa: "SetFromIK \<in> set (snd (computeIKService demo_ctx avoid_req demo_res))"
    by (simp add: demo_avoid)
  have sb: "SetFromIK \<in> set (snd (computeIKService demo_ctx demo_req demo_res))"
    by (simp add: demo_plain)
  from C2_lock_scope[where ctx=demo_ctx and req=avoid_req and res=demo_res] ha
  have la: "solver_locked 0 (snd (computeIKService demo_ctx avoid_req demo_res))"
    by blast
  from C2_lock_scope[where ctx=demo_ctx and req=demo_req and res=demo_res] hb sb
  have lb: "solver_unlocked 0 (snd (computeIKService demo_ctx demo_req demo_res))"
    "\<not> solver_locked 0 (snd (computeIKService demo_ctx demo_req demo_res))"
    by blast+
  from ha hb sa sb la lb show ?thesis by blast
qed

text \<open>
  C3. Whatever \<^verbatim>\<open>isIKSolutionValid\<close> returns for a candidate, the state it leaves
  is the given state with the candidate's joint values set and then updated; it first sets
  the values, then updates, then asks the scene for a collision exactly when a scene is
  given, then asks the constraint set exactly when one is given and no collision was
  found; the verdict is that both tests that were due passed, and with neither a scene nor
  a constraint set it is true. The callback the IK handler binds gives the scene exactly
  when the request asks for collision avoidance and the constraint set exactly when the
  set built from the request is not empty, so its verdict is: no collision if avoidance is
  asked for, and the constraints satisfied if there are any.
\<close>

theorem C3_validity_predicate:
  assumes "isIKSolutionValid ctx planning_scene_ptr constraint_set state jmg ik_solution =
             (ok, state', tr)"
  shows "state' = update ctx (setJointGroupPositions ctx state jmg ik_solution) \<and>
     tr = [SetJointGroupPositions, UpdateState]
          @ (case planning_scene_ptr of None \<Rightarrow> [] | Some ps \<Rightarrow> [IsStateColliding])
          @ (case constraint_set of None \<Rightarrow> []
             | Some ks \<Rightarrow>
                 (case planning_scene_ptr of None \<Rightarrow> [Decide]
                  | Some ps \<Rightarrow> if isStateColliding ps state' (getName jmg) then [] else [Decide])) \<and>
     ok = ((case planning_scene_ptr of None \<Rightarrow> True
            | Some ps \<Rightarrow> \<not> isStateColliding ps state' (getName jmg)) \<and>
           (case constraint_set of None \<Rightarrow> True | Some ks \<Rightarrow> decide_satisfied ks state')) \<and>
     (planning_scene_ptr = None \<and> constraint_set = None \<longrightarrow> ok) \<and>
     fst (bound_isIKSolutionValid ctx req ls kset state jmg ik_solution) =
       ((avoid_collisions req \<longrightarrow>
           \<not> isStateColliding ls
               (update ctx (setJointGroupPositions ctx state jmg ik_solution)) (getName jmg)) \<and>
        (\<not> kset_empty kset \<longrightarrow>
           decide_satisfied kset
             (update ctx (setJointGroupPositions ctx state jmg ik_solution))))"
proof -
  have "state' = update ctx (setJointGroupPositions ctx state jmg ik_solution) \<and>
     tr = [SetJointGroupPositions, UpdateState]
          @ (case planning_scene_ptr of None \<Rightarrow> [] | Some ps \<Rightarrow> [IsStateColliding])
          @ (case constraint_set of None \<Rightarrow> []
             | Some ks \<Rightarrow>
                 (case planning_scene_ptr of None \<Rightarrow> [Decide]
                  | Some ps \<Rightarrow> if isStateColliding ps state' (getName jmg) then [] else [Decide])) \<and>
     ok = ((case planning_scene_ptr of None \<Rightarrow> True
            | Some ps \<Rightarrow> \<not> isStateColliding ps state' (getName jmg)) \<and>
           (case constraint_set of None \<Rightarrow> True | Some ks \<Rightarrow> decide_satisfied ks state')) \<and>
     (planning_scene_ptr = None \<and> constraint_set = None \<longrightarrow> ok)"
    using assms
    by (auto simp: isIKSolutionValid_def Let_def split: option.splits if_splits)
  then show ?thesis
    using bound_valid(1)[of ctx req ls kset state jmg ik_solution] by blast
qed

text \<open>
  On the small robot, with the scene and a constraint set forbidding state 5: candidate 7
  collides and the constraint set is not asked; candidate 5 is free of collision and fails
  the constraint; with neither ingredient candidate 7 is accepted.
\<close>

theorem C3_witness:
  "isIKSolutionValid demo_ctx (Some demo_scene) (Some (kset_add demo_ctx [5])) 0
     (JointModelGroup ''arm'') 7 =
     (False, 7, [SetJointGroupPositions, UpdateState, IsStateColliding]) \<and>
   isIKSolutionValid demo_ctx (Some demo_scene) (Some (kset_add demo_ctx [5])) 0
     (JointModelGroup ''arm'') 5 =
     (False, 5, [SetJointGroupPositions, UpdateState, IsStateColliding, Decide]) \<and>
   isIKSolutionValid demo_ctx None None 0 (JointModelGroup ''arm'') 7 =
     (True, 7, [SetJointGroupPositions, UpdateState])"
proof -
  obtain ok1 s1 t1 where e1:
    "isIKSolutionValid demo_ctx (Some demo_scene) (Some (kset_add demo_ctx [5])) 0
       (JointModelGroup ''arm'') 7 = (ok1, s1, t1)"
    using prod_cases3 by blast
  obtain ok2 s2 t2 where e2:
    "isIKSolutionValid demo_ctx (Some demo_scene) (Some (kset_add demo_ctx [5])) 0
       (JointModelGroup ''arm'') 5 = (ok2, s2, t2)"
    using prod_cases3 by blast
  obtain ok3 s3 t3 where e3:
    "isIKSolutionValid demo_ctx None None 0 (JointModelGroup ''arm'') 7 = (ok3, s3, t3)"
    using prod_cases3 by blast
  from C3_validity_predicate[OF e1] C3_validity_predicate[OF e2] C3_validity_predicate[OF e3]
  show ?thesis
    unfolding e1 e2 e3 by (simp add: demo_defs)
qed

text \<open>
  C4, as the code has it. Take an IK request whose group name resolves and which, when it
  has more than one pose, has as many link names as poses. If \<^verbatim>\<open>performTransform\<close>
  fails on one of its poses, the handler answers \<open>FRAME_TRANSFORM_FAILURE\<close>, leaves the
  solution alone and never calls the solver; the poses transformed are those up to the
  first failing one, pose \<open>k\<close>, and none after it.
\<close>

theorem C4_transform_failure:
  assumes group: "getJointModelGroup ctx (group_name req) \<noteq> None"
    and counts: "1 < length (pose_stamped_vector req) \<longrightarrow>
                 length (pose_stamped_vector req) = length (ik_link_names req)"
    and fails: "\<exists>p\<in>set (request_poses req). performTransform ctx p (getModelFrame ctx) = None"
  shows "res_error_code (fst (computeIKService ctx req res)) = FRAME_TRANSFORM_FAILURE \<and>
         res_solution (fst (computeIKService ctx req res)) = res_solution res \<and>
         SetFromIK \<notin> set (snd (computeIKService ctx req res)) \<and>
         (\<exists>k<length (request_poses req).
            performTransform ctx (request_poses req ! k) (getModelFrame ctx) = None \<and>
            (\<forall>j<k. performTransform ctx (request_poses req ! j) (getModelFrame ctx) \<noteq> None) \<and>
            filter is_PerformTransform (snd (computeIKService ctx req res)) =
              map (transform_of (getModelFrame ctx)) (take (Suc k) (request_poses req)))"
proof -
  define k where
    "k = length (takeWhile (\<lambda>p. performTransform ctx p (getModelFrame ctx) \<noteq> None)
                   (request_poses req))"
  have ex: "\<exists>p\<in>set (request_poses req). \<not> performTransform ctx p (getModelFrame ctx) \<noteq> None"
    using fails by simp
  note ff = first_failure[OF ex, folded k_def]
  have k: "k < length (request_poses req)" by (rule ff(1))
  have f1: "performTransform ctx (request_poses req ! k) (getModelFrame ctx) = None"
    using ff(2) by simp
  have f2: "\<forall>j<k. performTransform ctx (request_poses req ! j) (getModelFrame ctx) \<noteq> None"
    by (rule ff(3))
  obtain rs' where R: "handler_computeIK ctx req res =
      ((res_solution res, FRAME_TRANSFORM_FAILURE, rs'),
       (if \<not> isEmpty_robot_state ctx (robot_state req) then [RobotStateMsgToRobotState] else [])
         @ map (transform_of (getModelFrame ctx)) (take (Suc k) (request_poses req)))"
    using computeIK_outcomes[of ctx req "res_solution res" "res_error_code res"
            "getCurrentState (planning_scene ctx)" "handler_callback ctx req"]
      group counts k
    unfolding handler_computeIK_def k_def by auto
  have "res_error_code (fst (computeIKService ctx req res)) = FRAME_TRANSFORM_FAILURE"
    "res_solution (fst (computeIKService ctx req res)) = res_solution res"
    "SetFromIK \<notin> set (snd (computeIKService ctx req res))"
    "filter is_PerformTransform (snd (computeIKService ctx req res)) =
       map (transform_of (getModelFrame ctx)) (take (Suc k) (request_poses req))"
    by (simp_all add: computeIKService_eq R)
  with k f1 f2 show ?thesis by blast
qed

text \<open>
  Three poses with three link names, the second pose in the unreachable frame
  \<open>mars\<close>: two transforms are attempted, the third pose is never looked at.
\<close>

theorem C4_witness:
  "getJointModelGroup demo_ctx (group_name multi_fail_req) \<noteq> None \<and>
   length (pose_stamped_vector multi_fail_req) = length (ik_link_names multi_fail_req) \<and>
   performTransform demo_ctx (request_poses multi_fail_req ! 1) (getModelFrame demo_ctx) = None \<and>
   res_error_code (fst (computeIKService demo_ctx multi_fail_req demo_res)) =
     FRAME_TRANSFORM_FAILURE \<and>
   SetFromIK \<notin> set (snd (computeIKService demo_ctx multi_fail_req demo_res)) \<and>
   filter is_PerformTransform (snd (computeIKService demo_ctx multi_fail_req demo_res)) =
     [PerformTransform ''world'' ''world'', PerformTransform ''mars'' ''world'']"
proof -
  have g: "getJointModelGroup demo_ctx (group_name multi_fail_req) \<noteq> None"
    by (simp add: demo_defs multi_fail_req_def)
  have c: "1 < length (pose_stamped_vector multi_fail_req) \<longrightarrow>
           length (pose_stamped_vector multi_fail_req) = length (ik_link_names multi_fail_req)"
    by (simp add: demo_defs multi_fail_req_def)
  have f: "\<exists>p\<in>set (request_poses multi_fail_req).
             performTransform demo_ctx p (getModelFrame demo_ctx) = None"
    by (simp add: demo_defs multi_fail_req_def request_poses_def)
  from C4_transform_failure[OF g c f, of demo_res] show ?thesis
    by (simp add: demo_multi_fail) (simp add: demo_defs multi_fail_req_def request_poses_def)
qed

text \<open>
  C4 as stated fails twice over: a pose in the frame \<open>mars\<close> for the unknown group
  \<open>bogus\<close> is answered with \<open>INVALID_GROUP_NAME\<close>, and two poses, the first in
  \<open>mars\<close>, with one link name for the group \<open>arm\<close> are answered with
  \<open>INVALID_LINK_NAME\<close>.
\<close>

theorem C4_counterexample:
  "performTransform demo_ctx (pose_stamped bogus_mars_req) (getModelFrame demo_ctx) = None \<and>
   pose_stamped_vector bogus_mars_req = [] \<and>
   res_error_code (fst (computeIKService demo_ctx bogus_mars_req demo_res)) = INVALID_GROUP_NAME \<and>
   performTransform demo_ctx (hd (pose_stamped_vector mismatch_req)) (getModelFrame demo_ctx) = None \<and>
   getJointModelGroup demo_ctx (group_name mismatch_req) = Some (JointModelGroup ''arm'') \<and>
   res_error_code (fst (computeIKService demo_ctx mismatch_req demo_res)) = INVALID_LINK_NAME"
  by (simp add: demo_bogus_mars demo_mismatch)
     (simp add: demo_defs bogus_mars_req_def bogus_req_def mismatch_req_def)

text \<open>
  C5, as the code has it. For an IK request with more than one pose whose number of poses
  differs from its number of link names, the solver is never called, no pose is
  transformed and the solution is left alone; the code is \<open>INVALID_LINK_NAME\<close> when
  the group name resolves, and \<open>INVALID_GROUP_NAME\<close> when it does not, since the group
  is checked first.
\<close>

theorem C5_count_mismatch:
  assumes "1 < length (pose_stamped_vector req)"
    and "length (pose_stamped_vector req) \<noteq> length (ik_link_names req)"
  shows "res_error_code (fst (computeIKService ctx req res)) =
           (if getJointModelGroup ctx (group_name req) = None then INVALID_GROUP_NAME
            else INVALID_LINK_NAME) \<and>
         SetFromIK \<notin> set (snd (computeIKService ctx req res)) \<and>
         filter is_PerformTransform (snd (computeIKService ctx req res)) = [] \<and>
         res_solution (fst (computeIKService ctx req res)) = res_solution res"
  using computeIK_outcomes[of ctx req "res_solution res" "res_error_code res"
          "getCurrentState (planning_scene ctx)" "handler_callback ctx req"] assms
  by (auto simp: computeIKService_eq handler_computeIK_def)

text \<open>Two poses and one link name for the group \<open>arm\<close>.\<close>

theorem C5_witness:
  "1 < length (pose_stamped_vector mismatch_req) \<and>
   length (pose_stamped_vector mismatch_req) \<noteq> length (ik_link_names mismatch_req) \<and>
   res_error_code (fst (computeIKService demo_ctx mismatch_req demo_res)) = INVALID_LINK_NAME \<and>
   SetFromIK \<notin> set (snd (computeIKService demo_ctx mismatch_req demo_res))"
proof -
  have h: "1 < length (pose_stamped_vector mismatch_req)"
    "length (pose_stamped_vector mismatch_req) \<noteq> length (ik_link_names mismatch_req)"
    by (simp_all add: demo_defs mismatch_req_def)
  from C5_count_mismatch[OF h, of demo_ctx demo_res] h show ?thesis
    by (simp add: demo_mismatch)
qed

text \<open>
  C5 as stated fails: the same two poses and one link name for the unknown group
  \<open>bogus\<close> are answered with \<open>INVALID_GROUP_NAME\<close>.
\<close>

theorem C5_counterexample:
  "1 < length (pose_stamped_vector bogus_mismatch_req) \<and>
   length (pose_stamped_vector bogus_mismatch_req) \<noteq> length (ik_link_names bogus_mismatch_req) \<and>
   res_error_code (fst (computeIKService demo_ctx bogus_mismatch_req demo_res)) \<noteq> INVALID_LINK_NAME"
  by (simp add: demo_bogus_mismatch) (simp add: demo_defs bogus_mismatch_req_def mismatch_req_def)

text \<open>
  C6. For an FK request with no link names the handler writes \<open>INVALID_LINK_NAME\<close>
  into the response and returns: the rest of the response is as it came, and the only
  action is the error line it logs, so the lock is not acquired, no state is copied and
  no transform is refreshed or computed.
\<close>

theorem C6_empty_link_names:
  assumes "fk_link_names req = []"
  shows "computeFKService ctx req res = (res\<lparr>fk_error_code := INVALID_LINK_NAME\<rparr>, [RclcppError]) \<and>
         LockAcquire \<notin> set (snd (computeFKService ctx req res))"
  using assms by (simp add: computeFKService_def)

theorem C6_witness:
  "fk_link_names empty_fk_req = [] \<and>
   computeFKService demo_ctx empty_fk_req demo_fk_res =
     (demo_fk_res\<lparr>fk_error_code := INVALID_LINK_NAME\<rparr>, [RclcppError]) \<and>
   LockAcquire \<notin> set (snd (computeFKService demo_ctx empty_fk_req demo_fk_res))"
proof -
  have h: "fk_link_names empty_fk_req = []"
    by (simp add: empty_fk_req_def)
  from C6_empty_link_names[OF h, of demo_ctx demo_fk_res] h show ?thesis
    by simp
qed

text \<open>
  C7, as the code has it. Take an FK request with at least one link name (one without is
  answered beforehand, see C6) and a response that arrives with an empty list of link
  names. The handler attempts to transform the poses into the requested output frame
  only when that frame id is not empty, differs from the model frame and a TF client is
  available; it then calls \<^verbatim>\<open>performTransform\<close> once for each requested link that
  exists in the model, and otherwise not at all. The code of the response is
  \<open>FRAME_TRANSFORM_FAILURE\<close> if one of the attempted transforms failed; otherwise
  \<open>SUCCESS\<close> if every requested link name exists in the model; otherwise
  \<open>INVALID_LINK_NAME\<close>. A pose whose transform was not attempted stays in the model
  frame and does not count as a failure.
\<close>

theorem C7_fk_error_code:
  assumes "fk_link_names req \<noteq> []" and "res_fk_link_names res = []"
  shows "fk_error_code (fst (computeFKService ctx req res)) =
           (if header_frame_id req \<noteq> [] \<and>
               \<not> sameFrame ctx (header_frame_id req) (getModelFrame ctx) \<and>
               getTFClient ctx \<and>
               (\<exists>(i, name)\<in>set (enumerate 0 (fk_link_names req)).
                  hasLinkModel ctx name \<and>
                  performTransform ctx (link_pose ctx (fk_state ctx req) i name)
                    (header_frame_id req) = None)
            then FRAME_TRANSFORM_FAILURE
            else if \<forall>name\<in>set (fk_link_names req). hasLinkModel ctx name
            then SUCCESS
            else INVALID_LINK_NAME) \<and>
         filter is_PerformTransform (snd (computeFKService ctx req res)) =
           (if header_frame_id req \<noteq> [] \<and>
               \<not> sameFrame ctx (header_frame_id req) (getModelFrame ctx) \<and>
               getTFClient ctx
            then map (\<lambda>e. PerformTransform (getModelFrame ctx) (header_frame_id req))
                   (filter (\<lambda>(i, name). hasLinkModel ctx name)
                      (enumerate 0 (fk_link_names req)))
            else [])"
proof -
  have all: "length (map snd (matched_links ctx req)) = length (fk_link_names req) \<longleftrightarrow>
        (\<forall>name\<in>set (fk_link_names req). hasLinkModel ctx name)"
    unfolding matched_links_def matched_names by (rule length_filter_all)
  have fails: "(\<exists>e\<in>set (enumerate 0 (fk_link_names req)). fk_transform_fails ctx req e) \<longleftrightarrow>
        (header_frame_id req \<noteq> [] \<and>
         \<not> sameFrame ctx (header_frame_id req) (getModelFrame ctx) \<and>
         getTFClient ctx \<and>
         (\<exists>(i, name)\<in>set (enumerate 0 (fk_link_names req)).
            hasLinkModel ctx name \<and>
            performTransform ctx (link_pose ctx (fk_state ctx req) i name)
              (header_frame_id req) = None))"
    by (auto simp: fk_transform_fails_def fk_do_transform_def)
  have code: "fk_error_code (fst (computeFKService ctx req res)) =
           (if \<exists>e\<in>set (enumerate 0 (fk_link_names req)). fk_transform_fails ctx req e
            then FRAME_TRANSFORM_FAILURE
            else if \<forall>name\<in>set (fk_link_names req). hasLinkModel ctx name
            then SUCCESS
            else INVALID_LINK_NAME)"
    using computeFKService_eq[OF assms(1), of ctx res] assms(2) all by auto
  have trace: "filter is_PerformTransform (snd (computeFKService ctx req res)) =
           (if header_frame_id req \<noteq> [] \<and>
               \<not> sameFrame ctx (header_frame_id req) (getModelFrame ctx) \<and>
               getTFClient ctx
            then map (\<lambda>e. PerformTransform (getModelFrame ctx) (header_frame_id req))
                   (filter (\<lambda>(i, name). hasLinkModel ctx name)
                      (enumerate 0 (fk_link_names req)))
            else [])"
    using computeFKService_transforms[OF assms(1), of ctx res]
    by (simp add: fk_do_transform_def matched_links_def)
  show ?thesis
    unfolding code fails using trace by simp
qed

text \<open>
  On the small robot: \<open>gripper\<close> and \<open>bogus_link\<close> with output frame \<open>mars\<close>
  give one attempted transform, which fails, and \<open>FRAME_TRANSFORM_FAILURE\<close>; the same
  links without output frame give no attempt and \<open>INVALID_LINK_NAME\<close>.
\<close>

theorem C7_witness:
  "fk_link_names mars_fk_req \<noteq> [] \<and> res_fk_link_names demo_fk_res = [] \<and>
   getTFClient demo_ctx \<and> hasLinkModel demo_ctx ''gripper'' \<and>
   performTransform demo_ctx (link_pose demo_ctx (fk_state demo_ctx mars_fk_req) 0 ''gripper'')
     (header_frame_id mars_fk_req) = None \<and>
   fk_error_code (fst (computeFKService demo_ctx mars_fk_req demo_fk_res)) =
     FRAME_TRANSFORM_FAILURE \<and>
   filter is_PerformTransform (snd (computeFKService demo_ctx mars_fk_req demo_fk_res)) =
     [PerformTransform ''world'' ''mars''] \<and>
   fk_link_names demo_fk_req \<noteq> [] \<and>
   \<not> hasLinkModel demo_ctx ''bogus_link'' \<and>
   fk_error_code (fst (computeFKService demo_ctx demo_fk_req demo_fk_res)) = INVALID_LINK_NAME \<and>
   filter is_PerformTransform (snd (computeFKService demo_ctx demo_fk_req demo_fk_res)) = []"
proof -
  have h: "fk_link_names mars_fk_req \<noteq> []" "fk_link_names demo_fk_req \<noteq> []"
    "res_fk_link_names demo_fk_res = []"
    by (simp_all add: fk_defs mars_fk_req_def)
  have f: "getTFClient demo_ctx" "hasLinkModel demo_ctx ''gripper''"
    "performTransform demo_ctx (link_pose demo_ctx (fk_state demo_ctx mars_fk_req) 0 ''gripper'')
       (header_frame_id mars_fk_req) = None"
    "\<not> hasLinkModel demo_ctx ''bogus_link''"
    by (simp_all add: fk_state_def fk_defs mars_fk_req_def)
  from C7_fk_error_code[OF h(1) h(3), of demo_ctx] C7_fk_error_code[OF h(2) h(3), of demo_ctx]
  show ?thesis using h f
    by (simp add: demo_fk_mars demo_fk_plain)
qed

text \<open>
  C7 as stated fails on the robot without a TF client: the pose of \<open>gripper\<close> is
  requested in the frame \<open>mars\<close>, into which it cannot be transformed; the handler
  does not attempt the transform, the response holds the pose in the frame \<open>world\<close>,
  and the code is \<open>SUCCESS\<close>, not \<open>FRAME_TRANSFORM_FAILURE\<close>.
\<close>

theorem C7_counterexample:
  "fk_link_names gripper_mars_fk_req = [''gripper''] \<and>
   header_frame_id gripper_mars_fk_req = ''mars'' \<and>
   hasLinkModel no_tf_ctx ''gripper'' \<and>
   performTransform no_tf_ctx
     (link_pose no_tf_ctx (fk_state no_tf_ctx gripper_mars_fk_req) 0 ''gripper'') ''mars'' = None \<and>
   map frame_id (res_pose_stamped (fst (computeFKService no_tf_ctx gripper_mars_fk_req demo_fk_res)))
     = [''world''] \<and>
   filter is_PerformTransform (snd (computeFKService no_tf_ctx gripper_mars_fk_req demo_fk_res))
     = [] \<and>
   fk_error_code (fst (computeFKService no_tf_ctx gripper_mars_fk_req demo_fk_res)) = SUCCESS"
  by (simp add: demo_fk_no_tf)
     (simp add: fk_state_def fk_defs no_tf_ctx_def gripper_mars_fk_req_def)

text \<open>
  C8. Let the request ask for collision avoidance. Then the handler hands the solver a
  callback, and that callback rejects every candidate whose state the scene reports as
  colliding for the group. If moreover the solver answers true only with a state that its
  callback accepted, then whenever the handler answers \<open>SUCCESS\<close> the solution is the
  message of a state the scene reports as free of collision.
\<close>

theorem C8_no_colliding_success:
  assumes avoid: "avoid_collisions req"
    and sound: "\<forall>rs jmg target t cb rs'.
        setFromIK ctx rs jmg target t (Some cb) = (True, rs') \<longrightarrow>
        (\<exists>rs0 v tr. cb rs0 jmg v = (True, rs', tr))"
  shows "(\<forall>state jmg v.
            isStateColliding (planning_scene ctx)
              (update ctx (setJointGroupPositions ctx state jmg v)) (getName jmg) \<longrightarrow>
            handler_callback ctx req \<noteq> None \<and>
            \<not> fst (the (handler_callback ctx req) state jmg v)) \<and>
         (res_error_code (fst (computeIKService ctx req res)) = SUCCESS \<longrightarrow>
            (\<exists>jmg rs'. getJointModelGroup ctx (group_name req) = Some jmg \<and>
               res_solution (fst (computeIKService ctx req res)) =
                 robotStateToRobotStateMsg ctx rs' (res_solution res) \<and>
               \<not> isStateColliding (planning_scene ctx) rs' (getName jmg)))"
proof -
  let ?cb = "bound_isIKSolutionValid ctx req (planning_scene ctx) (kset_add ctx (constraints req))"
  have cb: "handler_callback ctx req = Some ?cb"
    using avoid by (simp add: handler_callback_def)
  have rejects: "\<And>state jmg v.
      isStateColliding (planning_scene ctx)
        (update ctx (setJointGroupPositions ctx state jmg v)) (getName jmg) \<Longrightarrow>
      \<not> fst (?cb state jmg v)"
    using avoid by (simp add: bound_valid)
  have success: "\<exists>jmg rs'. getJointModelGroup ctx (group_name req) = Some jmg \<and>
               res_solution (fst (computeIKService ctx req res)) =
                 robotStateToRobotStateMsg ctx rs' (res_solution res) \<and>
               \<not> isStateColliding (planning_scene ctx) rs' (getName jmg)"
    if ok: "res_error_code (fst (computeIKService ctx req res)) = SUCCESS"
  proof -
    have "fst (snd (fst (handler_computeIK ctx req res))) = SUCCESS"
      using ok by (simp add: computeIKService_eq)
    then obtain jmg rs0 target rs' where
      jmg: "getJointModelGroup ctx (group_name req) = Some jmg" and
      solve: "setFromIK ctx rs0 jmg target (timeout_sec req) (handler_callback ctx req) = (True, rs')" and
      sol: "fst (fst (handler_computeIK ctx req res)) =
              robotStateToRobotStateMsg ctx rs' (res_solution res)"
      using computeIK_outcomes[of ctx req "res_solution res" "res_error_code res"
          "getCurrentState (planning_scene ctx)" "handler_callback ctx req"]
      unfolding handler_computeIK_def by auto
    from solve sound cb obtain rs1 v tr where acc: "?cb rs1 jmg v = (True, rs', tr)"
      by (metis (no_types, lifting))
    have "fst (?cb rs1 jmg v)" "fst (snd (?cb rs1 jmg v)) = rs'"
      using acc by simp_all
    then have "\<not> isStateColliding (planning_scene ctx) rs' (getName jmg)"
      using avoid by (simp add: bound_valid)
    with jmg sol show ?thesis
      by (auto simp: computeIKService_eq)
  qed
  show ?thesis using cb rejects success by simp
qed

text \<open>
  The solver of the small robot returns what its callback accepted. With collision
  avoidance, target 5 is solved by state 5, which does not collide, and target 7, whose
  only candidate collides, is answered with \<open>NO_IK_SOLUTION\<close>.
\<close>

theorem C8_witness:
  "avoid_collisions avoid_req \<and>
   res_error_code (fst (computeIKService demo_ctx avoid_req demo_res)) = SUCCESS \<and>
   res_solution (fst (computeIKService demo_ctx avoid_req demo_res)) = [5] \<and>
   \<not> isStateColliding (planning_scene demo_ctx) 5 ''arm'' \<and>
   (\<exists>jmg rs'. getJointModelGroup demo_ctx (group_name avoid_req) = Some jmg \<and>
      res_solution (fst (computeIKService demo_ctx avoid_req demo_res)) =
        robotStateToRobotStateMsg demo_ctx rs' (res_solution demo_res) \<and>
      \<not> isStateColliding (planning_scene demo_ctx) rs' (getName jmg)) \<and>
   avoid_collisions colliding_req \<and>
   isStateColliding (planning_scene demo_ctx) 7 ''arm'' \<and>
   res_error_code (fst (computeIKService demo_ctx colliding_req demo_res)) = NO_IK_SOLUTION"
proof -
  have avoid: "avoid_collisions avoid_req" "avoid_collisions colliding_req"
    by (simp_all add: demo_defs avoid_req_def colliding_req_def)
  have sound: "\<forall>rs jmg target t cb rs'.
        setFromIK demo_ctx rs jmg target t (Some cb) = (True, rs') \<longrightarrow>
        (\<exists>rs0 v tr. cb rs0 jmg v = (True, rs', tr))"
    by (clarsimp simp: demo_ctx_def demo_solver_def Let_def split: if_splits prod.splits) blast
  have ok: "res_error_code (fst (computeIKService demo_ctx avoid_req demo_res)) = SUCCESS"
    "res_solution (fst (computeIKService demo_ctx avoid_req demo_res)) = [5]"
    "res_error_code (fst (computeIKService demo_ctx colliding_req demo_res)) = NO_IK_SOLUTION"
    by (simp_all add: demo_avoid demo_colliding)
  have scene: "\<not> isStateColliding (planning_scene demo_ctx) 5 ''arm''"
    "isStateColliding (planning_scene demo_ctx) 7 ''arm''"
    by (simp_all add: demo_defs)
  from C8_no_colliding_success[OF avoid(1) sound, of demo_res] ok(1)
  have "\<exists>jmg rs'. getJointModelGroup demo_ctx (group_name avoid_req) = Some jmg \<and>
      res_solution (fst (computeIKService demo_ctx avoid_req demo_res)) =
        robotStateToRobotStateMsg demo_ctx rs' (res_solution demo_res) \<and>
      \<not> isStateColliding (planning_scene demo_ctx) rs' (getName jmg)"
    by blast
  with avoid ok scene show ?thesis by blast
qed

text \<open>
  C9. Whenever the IK handler ends with a code other than \<open>SUCCESS\<close>, the solution
  of the response is the one the response came with, \<^verbatim>\<open>robotStateToRobotStateMsg\<close>
  was never called, and the code is one of \<open>INVALID_GROUP_NAME\<close>,
  \<open>INVALID_LINK_NAME\<close>, \<open>FRAME_TRANSFORM_FAILURE\<close> and \<open>NO_IK_SOLUTION\<close>.
\<close>

theorem C9_failure_leaves_solution:
  assumes "res_error_code (fst (computeIKService ctx req res)) \<noteq> SUCCESS"
  shows "res_solution (fst (computeIKService ctx req res)) = res_solution res \<and>
         RobotStateToRobotStateMsg \<notin> set (snd (computeIKService ctx req res)) \<and>
         res_error_code (fst (computeIKService ctx req res)) \<in>
           {INVALID_GROUP_NAME, INVALID_LINK_NAME, FRAME_TRANSFORM_FAILURE, NO_IK_SOLUTION}"
proof -
  have ne: "fst (snd (fst (computeIK ctx req (res_solution res) (res_error_code res)
              (getCurrentState (planning_scene ctx)) (handler_callback ctx req)))) \<noteq> SUCCESS"
    using assms by (simp add: computeIKService_eq handler_computeIK_def)
  show ?thesis
    using computeIK_failure[OF ne]
    by (simp add: computeIKService_eq handler_computeIK_def)
qed

text \<open>
  The request whose only candidate collides ends with \<open>NO_IK_SOLUTION\<close> and leaves
  the solution empty.
\<close>

theorem C9_witness:
  "res_error_code (fst (computeIKService demo_ctx colliding_req demo_res))
     \<noteq> SUCCESS \<and>
   res_solution (fst (computeIKService demo_ctx colliding_req demo_res))
     = res_solution demo_res \<and>
   RobotStateToRobotStateMsg \<notin> set (snd (computeIKService demo_ctx colliding_req demo_res))"
proof -
  have h: "res_error_code (fst (computeIKService demo_ctx colliding_req demo_res))
     \<noteq> SUCCESS"
    by (simp add: demo_colliding)
  from C9_failure_leaves_solution[OF h] h show ?thesis by simp
qed

text \<open>
  C10. The FK handler appends to the response's list of link names exactly the requested
  link names that exist in the model, in the order of the request, and appends to the
  list of poses one pose for each of them, in the same order; so the two lists grow by
  the same number of entries and have equal length whenever they arrived with equal
  length (the service layer hands the handler an empty response). A requested link that
  exists in the model and whose transform into the requested frame fails is among the
  links appended, and its pose is the one built in the model's frame.
\<close>

theorem C10_fk_lists:
  "res_fk_link_names (fst (computeFKService ctx req res)) =
     res_fk_link_names res @ map snd (matched_links ctx req) \<and>
   res_pose_stamped (fst (computeFKService ctx req res)) =
     res_pose_stamped res @ map (fk_entry ctx req) (matched_links ctx req) \<and>
   map snd (matched_links ctx req) = filter (hasLinkModel ctx) (fk_link_names req) \<and>
   (length (res_pose_stamped res) = length (res_fk_link_names res) \<longrightarrow>
      length (res_pose_stamped (fst (computeFKService ctx req res))) =
      length (res_fk_link_names (fst (computeFKService ctx req res)))) \<and>
   (\<forall>e\<in>set (enumerate 0 (fk_link_names req)).
      fk_transform_fails ctx req e \<longrightarrow>
        e \<in> set (matched_links ctx req) \<and>
        fk_entry ctx req e = link_pose ctx (fk_state ctx req) (fst e) (snd e) \<and>
        frame_id (fk_entry ctx req e) = getModelFrame ctx)"
proof -
  have lists:
    "res_fk_link_names (fst (computeFKService ctx req res)) =
       res_fk_link_names res @ map snd (matched_links ctx req) \<and>
     res_pose_stamped (fst (computeFKService ctx req res)) =
       res_pose_stamped res @ map (fk_entry ctx req) (matched_links ctx req)"
  proof (cases "fk_link_names req = []")
    case True
    then show ?thesis by (simp add: computeFKService_def matched_links_def)
  next
    case False
    from computeFKService_eq[OF False, of ctx res] show ?thesis by auto
  qed
  have names: "map snd (matched_links ctx req) = filter (hasLinkModel ctx) (fk_link_names req)"
    unfolding matched_links_def by (rule matched_names)
  have failing: "\<forall>e\<in>set (enumerate 0 (fk_link_names req)).
      fk_transform_fails ctx req e \<longrightarrow>
        e \<in> set (matched_links ctx req) \<and>
        fk_entry ctx req e = link_pose ctx (fk_state ctx req) (fst e) (snd e) \<and>
        frame_id (fk_entry ctx req e) = getModelFrame ctx"
    by (auto simp: fk_transform_fails_def fk_entry_def matched_links_def link_pose_def)
  have "length (map (fk_entry ctx req) (matched_links ctx req)) =
        length (map snd (matched_links ctx req))"
    by simp
  with lists have len: "length (res_pose_stamped res) = length (res_fk_link_names res) \<longrightarrow>
      length (res_pose_stamped (fst (computeFKService ctx req res))) =
      length (res_fk_link_names (fst (computeFKService ctx req res)))"
    by simp
  from lists names len failing show ?thesis by blast
qed

text \<open>
  On the small robot, \<open>gripper\<close> and \<open>bogus_link\<close> with output frame \<open>mars\<close>:
  the transform of \<open>gripper\<close> fails, and the response holds \<open>gripper\<close> with its pose
  in the frame \<open>world\<close>; \<open>bogus_link\<close> is in neither list.
\<close>

theorem C10_witness:
  "res_fk_link_names (fst (computeFKService demo_ctx mars_fk_req demo_fk_res)) = [''gripper''] \<and>
   res_pose_stamped (fst (computeFKService demo_ctx mars_fk_req demo_fk_res)) =
     [\<lparr>frame_id = ''world'', stamp = 0, pose = 10\<rparr>] \<and>
   filter (hasLinkModel demo_ctx) (fk_link_names mars_fk_req) = [''gripper''] \<and>
   (0, ''gripper'') \<in> set (enumerate 0 (fk_link_names mars_fk_req)) \<and>
   fk_transform_fails demo_ctx mars_fk_req (0, ''gripper'') \<and>
   (0, ''gripper'') \<in> set (matched_links demo_ctx mars_fk_req) \<and>
   frame_id (fk_entry demo_ctx mars_fk_req (0, ''gripper'')) = getModelFrame demo_ctx"
proof -
  have e: "(0, ''gripper'') \<in> set (enumerate 0 (fk_link_names mars_fk_req))"
    by (simp add: fk_defs mars_fk_req_def)
  have f: "fk_transform_fails demo_ctx mars_fk_req (0, ''gripper'')"
    by (simp add: fk_transform_fails_def fk_do_transform_def fk_state_def fk_defs
          mars_fk_req_def)
  have n: "filter (hasLinkModel demo_ctx) (fk_link_names mars_fk_req) = [''gripper'']"
    by (simp add: fk_defs mars_fk_req_def)
  note c = C10_fk_lists[of demo_ctx mars_fk_req demo_fk_res]
  from c e f have
    "(0, ''gripper'') \<in> set (matched_links demo_ctx mars_fk_req)"
    "frame_id (fk_entry demo_ctx mars_fk_req (0, ''gripper'')) = getModelFrame demo_ctx"
    by blast+
  with e f n show ?thesis
    by (simp add: demo_fk_mars)
qed

end
